theory Spec2Isabelle
  imports Complex_Main "HOL-Library.Sublist"
begin

section \<open>Values of the notebooks\<close>

text \<open>
  The two notebooks (\<^verbatim>\<open>inference-cohere.ipynb\<close> and the Gemma RAG notebook) handle
  JSON-decoded Python values: what \<^verbatim>\<open>json.loads\<close> returns, the request bodies they
  build as dict literals, and the responses of the Elasticsearch client. A Python dict is
  the list of its items in insertion order (keys distinct); numbers are never inspected
  by the notebooks.
\<close>

datatype json =
    JNull
  | JBool bool
  | JNum real
  | JStr string
  | JList "json list"
  | JObj "(string \<times> json) list"

text \<open>A langchain \<^verbatim>\<open>Document\<close>: the two attributes the notebook reads or sets.\<close>

record document =
  page_content :: string
  metadata :: json

section \<open>The Gemma notebook: \<^verbatim>\<open>format_docs\<close>\<close>

text \<open>
  Python's \<^verbatim>\<open>sep.join(items)\<close> on strings: the empty string for no item, the item
  itself for one, and otherwise the items in order with \<^verbatim>\<open>sep\<close> between neighbours.
\<close>

fun str_join :: "string \<Rightarrow> string list \<Rightarrow> string" where
  "str_join sep [] = []"
| "str_join sep [x] = x"
| "str_join sep (x # y # ys) = x @ sep @ str_join sep (y # ys)"

text \<open>
  \<^verbatim>\<open>
  def format_docs(docs):
      return "\n\n".join(doc.page_content for doc in docs)
  \<close>
\<close>

definition newline2 :: string where
  "newline2 = [CHR 0x0A, CHR 0x0A]"

definition format_docs :: "document list \<Rightarrow> string" where
  "format_docs docs = str_join newline2 (map page_content docs)"

section \<open>The Cohere notebook: preparing the bulk actions\<close>

text \<open>
  \<^verbatim>\<open>
  documents = []
  for doc in data_json:
      documents.append(
          {
              "_index": "cohere-movie-embeddings",
              "_source": doc,
          }
      )
  \<close>
  The loop appends one dict per element; \<^verbatim>\<open>doc\<close> is stored as it is (no copy, no
  field touched).
\<close>

definition movie_index :: string where
  "movie_index = ''cohere-movie-embeddings''"

definition bulk_action :: "json \<Rightarrow> json" where
  "bulk_action doc = JObj [(''_index'', JStr movie_index), (''_source'', doc)]"

fun append_actions :: "json list \<Rightarrow> json list \<Rightarrow> json list" where
  "append_actions documents [] = documents"
| "append_actions documents (doc # rest) = append_actions (documents @ [bulk_action doc]) rest"

definition prepare_documents :: "json list \<Rightarrow> json list" where
  "prepare_documents data_json = append_actions [] data_json"

text \<open>Reading a key of a dict: \<^verbatim>\<open>d[k]\<close> on the items of a dict literal.\<close>

definition items_get :: "(string \<times> json) list \<Rightarrow> string \<Rightarrow> json option" where
  "items_get kvs k = map_of kvs k"

section \<open>Python values: subscripting and iteration\<close>

text \<open>
  The exceptions a run can end with: a missing dict key, an operation the value's type
  does not support, and whatever a library or service call raises (connection errors,
  HTTP errors, bulk errors, decoding errors), named by its text.
\<close>

datatype error = KeyError string | TypeError | Raised string

text \<open>\<^verbatim>\<open>v[k]\<close> with a string key: only a dict supports it.\<close>

fun py_getitem :: "json \<Rightarrow> string \<Rightarrow> error + json" where
  "py_getitem (JObj kvs) k = (case items_get kvs k of None \<Rightarrow> Inl (KeyError k) | Some v \<Rightarrow> Inr v)"
| "py_getitem _ k = Inl TypeError"

text \<open>
  \<^verbatim>\<open>for x in v\<close>: a list yields its elements, a dict its keys, a string its
  characters; the other values are not iterable.
\<close>

fun py_iter :: "json \<Rightarrow> error + json list" where
  "py_iter (JList xs) = Inr xs"
| "py_iter (JObj kvs) = Inr (map (\<lambda>kv. JStr (fst kv)) kvs)"
| "py_iter (JStr s) = Inr (map (\<lambda>c. JStr [c]) s)"
| "py_iter _ = Inl TypeError"

section \<open>Running a notebook\<close>

text \<open>
  A notebook is a straight-line script over the outside world: the user at the prompt,
  the network, the Elasticsearch deployment, the Hugging Face hub, the local model. Each
  call that reaches the outside is recorded in a trace with its outcome. The packages'
  installation and the imports are not part of the model.
\<close>

datatype piece = Lit string | Fmt json

datatype shown = ShownJson json | ShownStore | ShownStr string

datatype call =
    Getpass string
  | NewElasticsearch string string
  | ClientInfo
  | InferencePutModel string string json
  | IngestPutPipeline string string json
  | IndicesDelete string bool
  | IndicesCreate string json json
  | Urlopen string
  | HelpersBulk "json list"
  | ClientSearch string nat json
  | Sleep nat
  | Print "piece list"
  | Display shown
  | FromDocuments "document list" string string string
  | NotebookLogin
  | ModelFromPretrained string
  | TokenizerFromPretrained string
  | Retrieve nat string
  | LlmInvoke string

type_synonym trace = "(call \<times> error option) list"

type_synonym ('w, 'a) io = "'w \<Rightarrow> (error + 'a) \<times> 'w"

type_synonym ('w, 'a) prog = "'w \<times> trace \<Rightarrow> (error + 'a) \<times> ('w \<times> trace)"

text \<open>A call to the outside: it is logged with its outcome, and its exception is the run's.\<close>

definition perform :: "call \<Rightarrow> ('w, 'a) io \<Rightarrow> ('w, 'a) prog" where
  "perform c m = (\<lambda>s. case m (fst s) of
       (Inl e, w') \<Rightarrow> (Inl e, (w', snd s @ [(c, Some e)]))
     | (Inr x, w') \<Rightarrow> (Inr x, (w', snd s @ [(c, None)])))"

text \<open>Output on the notebook's own side (\<^verbatim>\<open>print\<close>, the echo of a cell, \<^verbatim>\<open>sleep\<close>).\<close>

definition emit :: "call \<Rightarrow> ('w, unit) prog" where
  "emit c = perform c (\<lambda>w. (Inr (), w))"

text \<open>A computation inside the process: its value, or its exception.\<close>

definition lift :: "error + 'a \<Rightarrow> ('w, 'a) prog" where
  "lift r = (\<lambda>s. (r, s))"

text \<open>
  One statement after another: with no \<^verbatim>\<open>try\<close> in either notebook, the first
  exception ends the run.
\<close>

definition bind :: "('w, 'a) prog \<Rightarrow> ('a \<Rightarrow> ('w, 'b) prog) \<Rightarrow> ('w, 'b) prog" where
  "bind m f = (\<lambda>s. case m s of (Inl e, s') \<Rightarrow> (Inl e, s') | (Inr x, s') \<Rightarrow> f x s')"

definition seq :: "('w, 'a) prog \<Rightarrow> ('w, 'b) prog \<Rightarrow> ('w, 'b) prog" where
  "seq m n = bind m (\<lambda>_. n)"

fun for_each :: "'a list \<Rightarrow> ('a \<Rightarrow> ('w, unit) prog) \<Rightarrow> ('w, unit) prog" where
  "for_each [] body = lift (Inr ())"
| "for_each (x # xs) body = seq (body x) (for_each xs body)"

definition calls :: "'w \<times> trace \<Rightarrow> call list" where
  "calls s = map fst (snd s)"

text \<open>
  The outside world as the notebooks use it. The functions below are the libraries and
  services the notebooks call (\<^verbatim>\<open>getpass\<close>, \<^verbatim>\<open>urllib\<close>, \<^verbatim>\<open>json\<close>, the
  Elasticsearch client, langchain, transformers, the Hugging Face hub); none of them is
  code of the repository, so each is a parameter of the run.
\<close>

record 'w env =
  getpass :: "string \<Rightarrow> ('w, string) io"
  new_elasticsearch :: "string \<Rightarrow> string \<Rightarrow> ('w, unit) io"
  client_info :: "('w, json) io"
  inference_put_model :: "string \<Rightarrow> string \<Rightarrow> json \<Rightarrow> ('w, json) io"
  ingest_put_pipeline :: "string \<Rightarrow> string \<Rightarrow> json \<Rightarrow> ('w, json) io"
  indices_delete :: "string \<Rightarrow> bool \<Rightarrow> ('w, json) io"
  indices_create :: "string \<Rightarrow> json \<Rightarrow> json \<Rightarrow> ('w, json) io"
  urlopen_read :: "string \<Rightarrow> ('w, string) io"
  json_loads :: "string \<Rightarrow> error + json"
  helpers_bulk :: "json list \<Rightarrow> ('w, unit) io"
  client_search :: "string \<Rightarrow> nat \<Rightarrow> json \<Rightarrow> ('w, json) io"
  create_documents :: "nat \<Rightarrow> nat \<Rightarrow> json list \<Rightarrow> json list \<Rightarrow> error + document list"
  from_documents :: "document list \<Rightarrow> string \<Rightarrow> string \<Rightarrow> string \<Rightarrow> ('w, unit) io"
  notebook_login :: "('w, unit) io"
  model_from_pretrained :: "string \<Rightarrow> ('w, unit) io"
  tokenizer_from_pretrained :: "string \<Rightarrow> ('w, unit) io"
  retrieve :: "nat \<Rightarrow> string \<Rightarrow> ('w, document list) io"
  prompt_format :: "string \<Rightarrow> (string \<times> string) list \<Rightarrow> error + string"
  llm_invoke :: "string \<Rightarrow> ('w, string) io"
  parse_output :: "string \<Rightarrow> error + string"

section \<open>The Cohere notebook\<close>

text \<open>
  \<^verbatim>\<open>
  ELASTIC_CLOUD_ID = getpass("Elastic Cloud ID: ")
  ELASTIC_API_KEY = getpass("Elastic Api Key: ")
  client = Elasticsearch(cloud_id=ELASTIC_CLOUD_ID, api_key=ELASTIC_API_KEY)
  \<close>
\<close>

definition connect_cell :: "'w env \<Rightarrow> ('w, unit) prog" where
  "connect_cell env =
     bind (perform (Getpass ''Elastic Cloud ID: '') (getpass env ''Elastic Cloud ID: ''))
       (\<lambda>cloud_id.
     bind (perform (Getpass ''Elastic Api Key: '') (getpass env ''Elastic Api Key: ''))
       (\<lambda>api_key.
     perform (NewElasticsearch cloud_id api_key) (new_elasticsearch env cloud_id api_key)))"

text \<open>\<^verbatim>\<open>print(client.info())\<close>\<close>

definition info_cell :: "'w env \<Rightarrow> ('w, unit) prog" where
  "info_cell env = bind (perform ClientInfo (client_info env)) (\<lambda>info. emit (Print [Fmt info]))"

text \<open>
  \<^verbatim>\<open>
  API_KEY = getpass("Enter Cohere API key:  ")
  client.inference.put_model(
      task_type="text_embedding",
      model_id="cohere_embeddings",
      body={
          "service": "cohere",
          "service_settings": {
              "api_key": API_KEY,
              "model_id": "embed-english-v3.0",
              "embedding_type": "int8",
          },
          "task_settings": {},
      },
  )
  \<close>
  The call is the cell's last expression, so the notebook shows its value.
\<close>

definition put_model_body :: "string \<Rightarrow> json" where
  "put_model_body api_key =
     JObj [(''service'', JStr ''cohere''),
           (''service_settings'',
              JObj [(''api_key'', JStr api_key),
                    (''model_id'', JStr ''embed-english-v3.0''),
                    (''embedding_type'', JStr ''int8'')]),
           (''task_settings'', JObj [])]"

definition inference_cell :: "'w env \<Rightarrow> ('w, unit) prog" where
  "inference_cell env =
     bind (perform (Getpass ''Enter Cohere API key:  '') (getpass env ''Enter Cohere API key:  ''))
       (\<lambda>api_key.
     bind (perform (InferencePutModel ''text_embedding'' ''cohere_embeddings'' (put_model_body api_key))
             (inference_put_model env ''text_embedding'' ''cohere_embeddings'' (put_model_body api_key)))
       (\<lambda>resp. emit (Display (ShownJson resp))))"

text \<open>
  \<^verbatim>\<open>
  client.ingest.put_pipeline(
      id="cohere_embeddings",
      description="Ingest pipeline for Cohere inference.",
      processors=[
          {
              "inference": {
                  "model_id": "cohere_embeddings",
                  "input_output": {
                      "input_field": "plot",
                      "output_field": "plot_embedding",
                  },
              }
          }
      ],
  )
  \<close>
\<close>

definition pipeline_processors :: json where
  "pipeline_processors =
     JList [JObj [(''inference'',
        JObj [(''model_id'', JStr ''cohere_embeddings''),
              (''input_output'',
                 JObj [(''input_field'', JStr ''plot''),
                       (''output_field'', JStr ''plot_embedding'')])])]]"

definition pipeline_cell :: "'w env \<Rightarrow> ('w, unit) prog" where
  "pipeline_cell env =
     bind (perform (IngestPutPipeline ''cohere_embeddings'' ''Ingest pipeline for Cohere inference.''
                      pipeline_processors)
             (ingest_put_pipeline env ''cohere_embeddings'' ''Ingest pipeline for Cohere inference.''
                      pipeline_processors))
       (\<lambda>resp. emit (Display (ShownJson resp)))"

text \<open>
  \<^verbatim>\<open>
  client.indices.delete(index="cohere-movie-embeddings", ignore_unavailable=True)
  client.indices.create(
      index="cohere-movie-embeddings",
      settings={"index": {"default_pipeline": "cohere_embeddings"}},
      mappings={
          "properties": {
              "plot_embedding": {
                  "type": "dense_vector",
                  "dims": 1024,
                  "element_type": "byte",
              },
              "plot": {"type": "text"},
          }
      },
  )
  \<close>
\<close>

definition index_settings :: json where
  "index_settings = JObj [(''index'', JObj [(''default_pipeline'', JStr ''cohere_embeddings'')])]"

definition index_mappings :: json where
  "index_mappings =
     JObj [(''properties'',
        JObj [(''plot_embedding'',
                 JObj [(''type'', JStr ''dense_vector''),
                       (''dims'', JNum 1024),
                       (''element_type'', JStr ''byte'')]),
              (''plot'', JObj [(''type'', JStr ''text'')])])]"

definition index_setup_cell :: "'w env \<Rightarrow> ('w, unit) prog" where
  "index_setup_cell env =
     bind (perform (IndicesDelete movie_index True) (indices_delete env movie_index True))
       (\<lambda>_.
     bind (perform (IndicesCreate movie_index index_settings index_mappings)
             (indices_create env movie_index index_settings index_mappings))
       (\<lambda>resp. emit (Display (ShownJson resp))))"

text \<open>
  \<^verbatim>\<open>
  url = "https://raw.githubusercontent.com/elastic/elasticsearch-labs/main/notebooks/search/movies.json"
  response = urlopen(url)
  data_json = json.loads(response.read())
  documents = []
  for doc in data_json: ...
  helpers.bulk(client, documents)
  print("Done indexing documents into `cohere-movie-embeddings` index!")
  time.sleep(3)
  \<close>
  Opening the URL and reading the response are one call of the model.
\<close>

definition movies_url :: string where
  "movies_url = ''https://raw.githubusercontent.com/elastic/elasticsearch-labs/main/notebooks/search/movies.json''"

definition insert_cell :: "'w env \<Rightarrow> ('w, unit) prog" where
  "insert_cell env =
     bind (perform (Urlopen movies_url) (urlopen_read env movies_url))
       (\<lambda>body.
     bind (lift (json_loads env body))
       (\<lambda>data_json.
     bind (lift (py_iter data_json))
       (\<lambda>elements.
     bind (perform (HelpersBulk (prepare_documents elements))
             (helpers_bulk env (prepare_documents elements)))
       (\<lambda>_.
     bind (emit (Print [Lit ''Done indexing documents into `cohere-movie-embeddings` index!'']))
       (\<lambda>_. emit (Sleep 3))))))"

text \<open>
  \<^verbatim>\<open>
  response = client.search(
      index="cohere-movie-embeddings",
      size=3,
      knn={
          "field": "plot_embedding",
          "query_vector_builder": {
              "text_embedding": {
                  "model_id": "cohere_embeddings",
                  "model_text": "Fighting movie",
              }
          },
          "k": 10,
          "num_candidates": 100,
      },
  )
  for hit in response["hits"]["hits"]:
      doc_id = hit["_id"]
      score = hit["_score"]
      title = hit["_source"]["title"]
      plot = hit["_source"]["plot"]
      print(f"Score: {score}\nTitle: {title}\nPlot: {plot}\n")
  \<close>
  The query text is the cell's only free choice; the notebook runs it with
  \<^verbatim>\<open>"Fighting movie"\<close>.
\<close>

definition knn_clause :: "string \<Rightarrow> json" where
  "knn_clause model_text =
     JObj [(''field'', JStr ''plot_embedding''),
           (''query_vector_builder'',
              JObj [(''text_embedding'',
                 JObj [(''model_id'', JStr ''cohere_embeddings''),
                       (''model_text'', JStr model_text)])]),
           (''k'', JNum 10),
           (''num_candidates'', JNum 100)]"

definition sum_bind :: "error + 'a \<Rightarrow> ('a \<Rightarrow> error + 'b) \<Rightarrow> error + 'b" where
  "sum_bind r f = (case r of Inl e \<Rightarrow> Inl e | Inr x \<Rightarrow> f x)"

definition hit_line :: "json \<Rightarrow> json \<Rightarrow> json \<Rightarrow> call" where
  "hit_line score title plot =
     Print [Lit ''Score: '', Fmt score, Lit (CHR 0x0A # ''Title: ''), Fmt title,
            Lit (CHR 0x0A # ''Plot: ''), Fmt plot, Lit [CHR 0x0A]]"

definition print_hit :: "json \<Rightarrow> ('w, unit) prog" where
  "print_hit hit =
     bind (lift (py_getitem hit ''_id''))
       (\<lambda>doc_id.
     bind (lift (py_getitem hit ''_score''))
       (\<lambda>score.
     bind (lift (sum_bind (py_getitem hit ''_source'') (\<lambda>src. py_getitem src ''title'')))
       (\<lambda>title.
     bind (lift (sum_bind (py_getitem hit ''_source'') (\<lambda>src. py_getitem src ''plot'')))
       (\<lambda>plot. emit (hit_line score title plot)))))"

text \<open>
  The exception, if any, that printing one hit ends with: that of the first subscript
  that fails, in the order the loop body evaluates them.
\<close>

definition hit_error :: "json \<Rightarrow> error option" where
  "hit_error hit =
     (case py_getitem hit ''_id'' of Inl e \<Rightarrow> Some e | Inr _ \<Rightarrow>
     (case py_getitem hit ''_score'' of Inl e \<Rightarrow> Some e | Inr _ \<Rightarrow>
     (case sum_bind (py_getitem hit ''_source'') (\<lambda>src. py_getitem src ''title'') of
        Inl e \<Rightarrow> Some e | Inr _ \<Rightarrow>
     (case sum_bind (py_getitem hit ''_source'') (\<lambda>src. py_getitem src ''plot'') of
        Inl e \<Rightarrow> Some e | Inr _ \<Rightarrow> None))))"

definition response_hits :: "json \<Rightarrow> error + json list" where
  "response_hits response =
     sum_bind (sum_bind (py_getitem response ''hits'') (\<lambda>h. py_getitem h ''hits'')) py_iter"

definition search_cell :: "'w env \<Rightarrow> string \<Rightarrow> ('w, unit) prog" where
  "search_cell env model_text =
     bind (perform (ClientSearch movie_index 3 (knn_clause model_text))
             (client_search env movie_index 3 (knn_clause model_text)))
       (\<lambda>response.
     bind (lift (response_hits response))
       (\<lambda>hits. for_each hits print_hit))"

text \<open>The cells run top to bottom.\<close>

definition cohere_notebook :: "'w env \<Rightarrow> ('w, unit) prog" where
  "cohere_notebook env =
     seq (connect_cell env)
    (seq (info_cell env)
    (seq (inference_cell env)
    (seq (pipeline_cell env)
    (seq (index_setup_cell env)
    (seq (insert_cell env)
         (search_cell env ''Fighting movie''))))))"

section \<open>The Gemma notebook\<close>

text \<open>
  \<^verbatim>\<open>
  ELASTIC_API_KEY = getpass("Elastic API Key :")
  ELASTIC_CLOUD_ID = getpass("Elastic Cloud ID :")
  elastic_index_name = "gemma-rag"
  \<close>
\<close>

definition elastic_index_name :: string where
  "elastic_index_name = ''gemma-rag''"

definition credentials_cell :: "'w env \<Rightarrow> ('w, string \<times> string) prog" where
  "credentials_cell env =
     bind (perform (Getpass ''Elastic API Key :'') (getpass env ''Elastic API Key :''))
       (\<lambda>api_key.
     bind (perform (Getpass ''Elastic Cloud ID :'') (getpass env ''Elastic Cloud ID :''))
       (\<lambda>cloud_id. lift (Inr (api_key, cloud_id))))"

text \<open>
  \<^verbatim>\<open>
  url = "https://raw.githubusercontent.com/elastic/elasticsearch-labs/main/datasets/workplace-documents.json"
  response = urlopen(url)
  workplace_docs = json.loads(response.read())
  \<close>
\<close>

definition workplace_url :: string where
  "workplace_url = ''https://raw.githubusercontent.com/elastic/elasticsearch-labs/main/datasets/workplace-documents.json''"

definition download_cell :: "'w env \<Rightarrow> ('w, json) prog" where
  "download_cell env =
     bind (perform (Urlopen workplace_url) (urlopen_read env workplace_url))
       (\<lambda>body. lift (json_loads env body))"

text \<open>
  \<^verbatim>\<open>
  metadata = []
  content = []
  for doc in workplace_docs:
      content.append(doc["content"])
      metadata.append(
          {
              "name": doc["name"],
              "summary": doc["summary"],
              "rolePermissions": doc["rolePermissions"],
          }
      )
  text_splitter = CharacterTextSplitter(chunk_size=50, chunk_overlap=0)
  docs = text_splitter.create_documents(content, metadatas=metadata)
  \<close>
  The loop fills the two lists side by side; a document without one of the four keys ends
  the run with \<^verbatim>\<open>KeyError\<close>. The splitter is langchain's and gets the two lists and
  the two numbers.
\<close>

definition doc_metadata :: "json \<Rightarrow> json \<Rightarrow> json \<Rightarrow> json" where
  "doc_metadata name summary role_permissions =
     JObj [(''name'', name), (''summary'', summary), (''rolePermissions'', role_permissions)]"

fun collect :: "json list \<Rightarrow> json list \<Rightarrow> json list \<Rightarrow> error + (json list \<times> json list)" where
  "collect content metadatas [] = Inr (content, metadatas)"
| "collect content metadatas (doc # rest) =
     (case py_getitem doc ''content'' of Inl e \<Rightarrow> Inl e | Inr c \<Rightarrow>
     (case py_getitem doc ''name'' of Inl e \<Rightarrow> Inl e | Inr n \<Rightarrow>
     (case py_getitem doc ''summary'' of Inl e \<Rightarrow> Inl e | Inr s \<Rightarrow>
     (case py_getitem doc ''rolePermissions'' of Inl e \<Rightarrow> Inl e | Inr r \<Rightarrow>
        collect (content @ [c]) (metadatas @ [doc_metadata n s r]) rest))))"

definition split_documents ::
  "(nat \<Rightarrow> nat \<Rightarrow> json list \<Rightarrow> json list \<Rightarrow> error + document list) \<Rightarrow> json list
    \<Rightarrow> error + document list" where
  "split_documents splitter workplace_docs =
     sum_bind (collect [] [] workplace_docs)
       (\<lambda>lists. splitter 50 0 (fst lists) (snd lists))"

definition split_cell :: "'w env \<Rightarrow> json \<Rightarrow> ('w, document list) prog" where
  "split_cell env workplace_docs =
     bind (lift (py_iter workplace_docs))
       (\<lambda>elements. lift (split_documents (create_documents env) elements))"

text \<open>
  \<^verbatim>\<open>
  es = ElasticsearchStore.from_documents(
      docs,
      es_cloud_id=ELASTIC_CLOUD_ID,
      es_api_key=ELASTIC_API_KEY,
      index_name=elastic_index_name,
      strategy=ElasticsearchStore.SparseVectorRetrievalStrategy(),
  )
  es
  \<close>
\<close>

definition index_cell :: "'w env \<Rightarrow> document list \<Rightarrow> string \<Rightarrow> string \<Rightarrow> ('w, unit) prog" where
  "index_cell env docs cloud_id api_key =
     bind (perform (FromDocuments docs cloud_id api_key elastic_index_name)
             (from_documents env docs cloud_id api_key elastic_index_name))
       (\<lambda>es. emit (Display ShownStore))"

text \<open>
  \<^verbatim>\<open>
  notebook_login()
  model = AutoModelForCausalLM.from_pretrained("google/gemma-2b-it")
  tokenizer = AutoTokenizer.from_pretrained("google/gemma-2b-it")
  \<close>
  The constructions that follow in the notebook (\<^verbatim>\<open>pipeline\<close>,
  \<^verbatim>\<open>HuggingFacePipeline\<close>, \<^verbatim>\<open>as_retriever\<close>, \<^verbatim>\<open>from_template\<close>) build objects
  inside the process and are not calls of the model; the retriever's \<^verbatim>\<open>k\<close> appears in
  the retrieval it makes.
\<close>

definition model_cell :: "'w env \<Rightarrow> ('w, unit) prog" where
  "model_cell env =
     bind (perform NotebookLogin (notebook_login env))
       (\<lambda>_.
     bind (perform (ModelFromPretrained ''google/gemma-2b-it'')
             (model_from_pretrained env ''google/gemma-2b-it''))
       (\<lambda>_.
     perform (TokenizerFromPretrained ''google/gemma-2b-it'')
             (tokenizer_from_pretrained env ''google/gemma-2b-it'')))"

text \<open>
  The chain is written with langchain's expression language: \<^verbatim>\<open>a | b\<close> feeds the
  output of \<^verbatim>\<open>a\<close> to \<^verbatim>\<open>b\<close>; a dict of runnables gives each the same input and
  returns the dict of their outputs; a plain function is a runnable that applies it;
  \<^verbatim>\<open>RunnablePassthrough()\<close> returns its input.
\<close>

type_synonym ('w, 'a, 'b) runnable = "'a \<Rightarrow> ('w, 'b) prog"

definition pipe :: "('w, 'a, 'b) runnable \<Rightarrow> ('w, 'b, 'c) runnable \<Rightarrow> ('w, 'a, 'c) runnable" where
  "pipe first second = (\<lambda>x. bind (first x) second)"

definition runnable_lambda :: "('a \<Rightarrow> 'b) \<Rightarrow> ('w, 'a, 'b) runnable" where
  "runnable_lambda f = (\<lambda>x. lift (Inr (f x)))"

definition runnable_passthrough :: "('w, 'a, 'a) runnable" where
  "runnable_passthrough = (\<lambda>x. lift (Inr x))"

definition runnable_parallel ::
  "string \<Rightarrow> ('w, 'a, 'b) runnable \<Rightarrow> string \<Rightarrow> ('w, 'a, 'b) runnable
     \<Rightarrow> ('w, 'a, (string \<times> 'b) list) runnable" where
  "runnable_parallel k1 r1 k2 r2 =
     (\<lambda>x. bind (r1 x) (\<lambda>v1. bind (r2 x) (\<lambda>v2. lift (Inr [(k1, v1), (k2, v2)]))))"

text \<open>
  \<^verbatim>\<open>
  retriever = es.as_retriever(search_kwargs={"k": 10})
  template = """Answer the question based only on the following context:\n

  {context}

  Question: {question}
  """
  prompt = ChatPromptTemplate.from_template(template)
  chain = (
      {"context": retriever | format_docs, "question": RunnablePassthrough()}
      | prompt
      | llm
      | StrOutputParser()
  )
  \<close>
\<close>

definition template :: string where
  "template = ''Answer the question based only on the following context:''
     @ [CHR 0x0A, CHR 0x0A, CHR 0x0A] @ ''{context}'' @ [CHR 0x0A, CHR 0x0A]
     @ ''Question: {question}'' @ [CHR 0x0A]"

definition retriever :: "'w env \<Rightarrow> ('w, string, document list) runnable" where
  "retriever env = (\<lambda>query. perform (Retrieve 10 query) (retrieve env 10 query))"

definition prompt :: "'w env \<Rightarrow> ('w, (string \<times> string) list, string) runnable" where
  "prompt env = (\<lambda>inputs. lift (prompt_format env template inputs))"

definition llm :: "'w env \<Rightarrow> ('w, string, string) runnable" where
  "llm env = (\<lambda>text. perform (LlmInvoke text) (llm_invoke env text))"

definition str_output_parser :: "'w env \<Rightarrow> ('w, string, string) runnable" where
  "str_output_parser env = (\<lambda>output. lift (parse_output env output))"

definition chain :: "'w env \<Rightarrow> ('w, string, string) runnable" where
  "chain env =
     pipe (pipe (pipe
       (runnable_parallel
          ''context'' (pipe (retriever env) (runnable_lambda format_docs))
          ''question'' runnable_passthrough)
       (prompt env))
       (llm env))
       (str_output_parser env)"

text \<open>\<^verbatim>\<open>chain.invoke("What is the pet policy in the office?")\<close>, shown by the notebook.\<close>

definition ask_cell :: "'w env \<Rightarrow> string \<Rightarrow> ('w, unit) prog" where
  "ask_cell env question = bind (chain env question) (\<lambda>answer. emit (Display (ShownStr answer)))"

definition gemma_notebook :: "'w env \<Rightarrow> ('w, unit) prog" where
  "gemma_notebook env =
     bind (credentials_cell env)
       (\<lambda>keys.
     bind (download_cell env)
       (\<lambda>workplace_docs.
     bind (split_cell env workplace_docs)
       (\<lambda>docs.
     seq (index_cell env docs (snd keys) (fst keys))
    (seq (model_cell env)
         (ask_cell env ''What is the pet policy in the office?'')))))"

section \<open>The stages of the chain, one after another\<close>

text \<open>
  The question-answering pipeline as the specification describes it: retrieve the
  documents for the question, format them, fill the prompt template with that context and
  the question, run the model on the filled prompt, parse its output. Each stage runs
  once and hands its result to the next.
\<close>

definition rag_sequential :: "'w env \<Rightarrow> string \<Rightarrow> ('w, string) prog" where
  "rag_sequential env question =
     bind (perform (Retrieve 10 question) (retrieve env 10 question))
       (\<lambda>docs.
     bind (lift (prompt_format env template
                   [(''context'', format_docs docs), (''question'', question)]))
       (\<lambda>filled.
     bind (perform (LlmInvoke filled) (llm_invoke env filled))
       (\<lambda>output. lift (parse_output env output))))"

section \<open>Traces and scripts\<close>

text \<open>
  A trace follows a script when its calls are the script's, in order, up to the point the
  run stopped, every call but the last has succeeded, and a failed last call gave the
  run its exception.
\<close>

fun follows :: "call list \<Rightarrow> trace \<Rightarrow> error + 'a \<Rightarrow> bool" where
  "follows script [] r = True"
| "follows [] (x # tr) r = False"
| "follows (c # script) ((c', None) # tr) r = (c = c' \<and> follows script tr r)"
| "follows (c # script) ((c', Some e) # tr) r = (c = c' \<and> tr = [] \<and> r = Inl e)"

definition ok :: "call list \<Rightarrow> trace" where
  "ok cs = map (\<lambda>c. (c, None)) cs"

text \<open>Every element with the first property comes before every element with the second.\<close>

fun all_before :: "('a \<Rightarrow> bool) \<Rightarrow> ('a \<Rightarrow> bool) \<Rightarrow> 'a list \<Rightarrow> bool" where
  "all_before P Q [] = True"
| "all_before P Q (x # xs) = (if Q x then \<not> list_ex P (x # xs) else all_before P Q xs)"

text \<open>
  Every element with the second property has an element with the first property
  somewhere before it.
\<close>

fun preceded :: "('a \<Rightarrow> bool) \<Rightarrow> ('a \<Rightarrow> bool) \<Rightarrow> 'a list \<Rightarrow> bool" where
  "preceded P Q [] = True"
| "preceded P Q (x # xs) = (if Q x then False else if P x then True else preceded P Q xs)"

text \<open>A call of some kind that returned, and a call of some kind that was made.\<close>

definition succeeded :: "(call \<Rightarrow> bool) \<Rightarrow> call \<times> error option \<Rightarrow> bool" where
  "succeeded P entry = (P (fst entry) \<and> snd entry = None)"

definition attempted :: "(call \<Rightarrow> bool) \<Rightarrow> call \<times> error option \<Rightarrow> bool" where
  "attempted P entry = P (fst entry)"

text \<open>The calls of the Cohere notebook, in the order of its cells, up to the search.\<close>

definition cohere_script ::
  "string \<Rightarrow> string \<Rightarrow> json \<Rightarrow> string \<Rightarrow> json \<Rightarrow> json \<Rightarrow> json \<Rightarrow> json list \<Rightarrow> string \<Rightarrow> call list" where
  "cohere_script cloud_id api_key info cohere_key r1 r2 r3 elements model_text =
     [Getpass ''Elastic Cloud ID: '', Getpass ''Elastic Api Key: '',
      NewElasticsearch cloud_id api_key,
      ClientInfo, Print [Fmt info],
      Getpass ''Enter Cohere API key:  '',
      InferencePutModel ''text_embedding'' ''cohere_embeddings'' (put_model_body cohere_key),
      Display (ShownJson r1),
      IngestPutPipeline ''cohere_embeddings'' ''Ingest pipeline for Cohere inference.''
        pipeline_processors,
      Display (ShownJson r2),
      IndicesDelete movie_index True,
      IndicesCreate movie_index index_settings index_mappings,
      Display (ShownJson r3),
      Urlopen movies_url,
      HelpersBulk (prepare_documents elements),
      Print [Lit ''Done indexing documents into `cohere-movie-embeddings` index!''],
      Sleep 3,
      ClientSearch movie_index 3 (knn_clause model_text)]"

text \<open>The calls of the Gemma notebook, in the order of its cells.\<close>

definition gemma_script ::
  "string \<Rightarrow> string \<Rightarrow> document list \<Rightarrow> string \<Rightarrow> string \<Rightarrow> string \<Rightarrow> call list" where
  "gemma_script api_key cloud_id docs question filled answer =
     [Getpass ''Elastic API Key :'', Getpass ''Elastic Cloud ID :'',
      Urlopen workplace_url,
      FromDocuments docs cloud_id api_key elastic_index_name,
      Display ShownStore,
      NotebookLogin,
      ModelFromPretrained ''google/gemma-2b-it'',
      TokenizerFromPretrained ''google/gemma-2b-it'',
      Retrieve 10 question,
      LlmInvoke filled,
      Display (ShownStr answer)]"

subsection \<open>Kinds of calls\<close>

definition is_hit_line :: "call \<Rightarrow> bool" where
  "is_hit_line c = (case c of Print (Lit s # _) \<Rightarrow> s = ''Score: '' | _ \<Rightarrow> False)"

definition is_credential :: "call \<Rightarrow> bool" where
  "is_credential c = (case c of Getpass _ \<Rightarrow> True | NotebookLogin \<Rightarrow> True | _ \<Rightarrow> False)"

definition is_elastic_credential :: "call \<Rightarrow> bool" where
  "is_elastic_credential c =
     (case c of
        Getpass p \<Rightarrow> p \<in> set [''Elastic Cloud ID: '', ''Elastic Api Key: '',
                               ''Elastic API Key :'', ''Elastic Cloud ID :'']
      | _ \<Rightarrow> False)"

definition is_cohere_credential :: "call \<Rightarrow> bool" where
  "is_cohere_credential c = (case c of Getpass p \<Rightarrow> p = ''Enter Cohere API key:  '' | _ \<Rightarrow> False)"

definition is_hub_login :: "call \<Rightarrow> bool" where
  "is_hub_login c = (case c of NotebookLogin \<Rightarrow> True | _ \<Rightarrow> False)"

definition reads_cloud_id :: "call \<Rightarrow> bool" where
  "reads_cloud_id c =
     (case c of Getpass p \<Rightarrow> p \<in> set [''Elastic Cloud ID: '', ''Elastic Cloud ID :''] | _ \<Rightarrow> False)"

definition reads_api_key :: "call \<Rightarrow> bool" where
  "reads_api_key c =
     (case c of Getpass p \<Rightarrow> p \<in> set [''Elastic Api Key: '', ''Elastic API Key :''] | _ \<Rightarrow> False)"

text \<open>The requests to a managed service: the Elasticsearch deployment or the model hub.\<close>

definition is_service_call :: "call \<Rightarrow> bool" where
  "is_service_call c =
     (case c of
        ClientInfo \<Rightarrow> True
      | InferencePutModel _ _ _ \<Rightarrow> True
      | IngestPutPipeline _ _ _ \<Rightarrow> True
      | IndicesDelete _ _ \<Rightarrow> True
      | IndicesCreate _ _ _ \<Rightarrow> True
      | HelpersBulk _ \<Rightarrow> True
      | ClientSearch _ _ _ \<Rightarrow> True
      | FromDocuments _ _ _ _ \<Rightarrow> True
      | ModelFromPretrained _ \<Rightarrow> True
      | TokenizerFromPretrained _ \<Rightarrow> True
      | Retrieve _ _ \<Rightarrow> True
      | _ \<Rightarrow> False)"

definition uses_cohere_key :: "call \<Rightarrow> bool" where
  "uses_cohere_key c = (case c of InferencePutModel _ _ _ \<Rightarrow> True | _ \<Rightarrow> False)"

definition is_hub_call :: "call \<Rightarrow> bool" where
  "is_hub_call c =
     (case c of ModelFromPretrained _ \<Rightarrow> True | TokenizerFromPretrained _ \<Rightarrow> True | _ \<Rightarrow> False)"

definition is_download :: "call \<Rightarrow> bool" where
  "is_download c = (case c of Urlopen _ \<Rightarrow> True | _ \<Rightarrow> False)"

definition is_indexing :: "call \<Rightarrow> bool" where
  "is_indexing c = (case c of HelpersBulk _ \<Rightarrow> True | FromDocuments _ _ _ _ \<Rightarrow> True | _ \<Rightarrow> False)"

definition is_query :: "call \<Rightarrow> bool" where
  "is_query c = (case c of ClientSearch _ _ _ \<Rightarrow> True | Retrieve _ _ \<Rightarrow> True | _ \<Rightarrow> False)"

text \<open>The output of the query's results: the printed hits, the displayed answer.\<close>

definition is_result_output :: "call \<Rightarrow> bool" where
  "is_result_output c = (is_hit_line c \<or> (case c of Display (ShownStr _) \<Rightarrow> True | _ \<Rightarrow> False))"

definition is_other_call :: "call \<Rightarrow> bool" where
  "is_other_call c = (\<not> is_result_output c)"

text \<open>
  The calls that delete or update stored data. Of the calls the notebooks make, only
  \<^verbatim>\<open>indices.delete\<close> does: the others read, search, add documents, or create an
  inference endpoint, a pipeline or an index.
\<close>

definition is_delete_or_update :: "call \<Rightarrow> bool" where
  "is_delete_or_update c = (case c of IndicesDelete _ _ \<Rightarrow> True | _ \<Rightarrow> False)"

text \<open>
  The order of the steps of a run: no credential, download or indexing call comes at or
  after the first call of the step that needs it, every call of a later step has a
  completed call of the earlier step before it, and the results' output comes last.
\<close>

definition steps_in_order :: "trace \<Rightarrow> bool" where
  "steps_in_order tr =
     (all_before is_elastic_credential is_service_call (map fst tr)
    \<and> all_before is_cohere_credential uses_cohere_key (map fst tr)
    \<and> all_before is_hub_login is_hub_call (map fst tr)
    \<and> all_before is_download is_indexing (map fst tr)
    \<and> all_before is_indexing is_query (map fst tr)
    \<and> all_before is_other_call is_result_output (map fst tr)
    \<and> preceded (succeeded reads_cloud_id) (attempted is_service_call) tr
    \<and> preceded (succeeded reads_api_key) (attempted is_service_call) tr
    \<and> preceded (succeeded is_cohere_credential) (attempted uses_cohere_key) tr
    \<and> preceded (succeeded is_hub_login) (attempted is_hub_call) tr
    \<and> preceded (succeeded is_download) (attempted is_indexing) tr
    \<and> preceded (succeeded is_indexing) (attempted is_query) tr
    \<and> preceded (succeeded is_query) (attempted is_result_output) tr)"

section \<open>The index API of the deployment\<close>

text \<open>
  The index-setup cell talks to the index API of the Elasticsearch deployment, which is
  not code of the repository. The two requests are recorded here as the Elasticsearch
  reference describes them, for a deployment seen as a map from index names to indices:
  deleting removes the index, and a missing index is an error (\<^verbatim>\<open>NotFoundError\<close>)
  unless \<^verbatim>\<open>ignore_unavailable\<close> is set; creating makes an empty index with the given
  settings and mappings, and an existing index is an error (\<^verbatim>\<open>BadRequestError\<close>).
\<close>

record index_state =
  settings :: json
  mappings :: json
  documents :: "json list"

type_synonym cluster = "string \<rightharpoonup> index_state"

definition acknowledged :: json where
  "acknowledged = JObj [(''acknowledged'', JBool True)]"

definition es_indices_delete :: "string \<Rightarrow> bool \<Rightarrow> (cluster, json) io" where
  "es_indices_delete index ignore_unavailable =
     (\<lambda>c. case c index of
        Some _ \<Rightarrow> (Inr acknowledged, c(index := None))
      | None \<Rightarrow> if ignore_unavailable then (Inr acknowledged, c)
                else (Inl (Raised ''NotFoundError''), c))"

definition es_indices_create :: "string \<Rightarrow> json \<Rightarrow> json \<Rightarrow> (cluster, json) io" where
  "es_indices_create index index_settings' index_mappings' =
     (\<lambda>c. case c index of
        Some _ \<Rightarrow> (Inl (Raised ''BadRequestError''), c)
      | None \<Rightarrow> (Inr acknowledged,
                 c(index \<mapsto> \<lparr>settings = index_settings', mappings = index_mappings',
                              documents = []\<rparr>)))"

definition fresh_index :: index_state where
  "fresh_index = \<lparr>settings = index_settings, mappings = index_mappings, documents = []\<rparr>"

text \<open>The deployment honours \<^verbatim>\<open>size\<close>: a search response lists at most that many hits.\<close>

definition search_respects_size :: "'w env \<Rightarrow> bool" where
  "search_respects_size env =
     (\<forall>index size knn w response w' hits.
        client_search env index size knn w = (Inr response, w')
          \<longrightarrow> response_hits response = Inr hits \<longrightarrow> length hits \<le> size)"

text \<open>
  langchain's \<^verbatim>\<open>create_documents\<close> is not code of the repository either. What the
  notebook relies on: the texts are split one by one, and every chunk of the i-th text
  becomes a document with (a copy of) the i-th metadata.
\<close>

definition chunk_documents :: "string list \<Rightarrow> json \<Rightarrow> document list" where
  "chunk_documents chunks meta = map (\<lambda>chunk. \<lparr>page_content = chunk, metadata = meta\<rparr>) chunks"

definition pairs_chunks_with_metadata ::
  "(nat \<Rightarrow> nat \<Rightarrow> json list \<Rightarrow> json list \<Rightarrow> error + document list)
     \<Rightarrow> (nat \<Rightarrow> nat \<Rightarrow> json \<Rightarrow> string list) \<Rightarrow> bool" where
  "pairs_chunks_with_metadata splitter split_text =
     (\<forall>chunk_size chunk_overlap texts metadatas docs.
        splitter chunk_size chunk_overlap texts metadatas = Inr docs
          \<longrightarrow> length texts = length metadatas
          \<longrightarrow> docs = concat (map (\<lambda>tm. chunk_documents (split_text chunk_size chunk_overlap (fst tm)) (snd tm))
                                 (zip texts metadatas)))"

text \<open>The metadata the loop builds for one downloaded document, and the document's chunks.\<close>

definition parent_metadata :: "json \<Rightarrow> error + json" where
  "parent_metadata doc =
     sum_bind (py_getitem doc ''name'') (\<lambda>n.
     sum_bind (py_getitem doc ''summary'') (\<lambda>s.
     sum_bind (py_getitem doc ''rolePermissions'') (\<lambda>r.
       Inr (JObj [(''name'', n), (''summary'', s), (''rolePermissions'', r)]))))"

definition chunks_of_parent :: "(nat \<Rightarrow> nat \<Rightarrow> json \<Rightarrow> string list) \<Rightarrow> json \<Rightarrow> document list" where
  "chunks_of_parent split_text doc =
     (case (py_getitem doc ''content'', parent_metadata doc) of
        (Inr text, Inr meta) \<Rightarrow> chunk_documents (split_text 50 0 text) meta
      | _ \<Rightarrow> [])"

definition has_fields :: "json \<Rightarrow> bool" where
  "has_fields doc =
     list_all (\<lambda>k. case py_getitem doc k of Inr _ \<Rightarrow> True | Inl _ \<Rightarrow> False)
       [''content'', ''name'', ''summary'', ''rolePermissions'']"

section \<open>A sample environment\<close>

text \<open>
  One concrete outside world, for running the notebooks on: every call succeeds, the
  deployment is the map of its indices, the dataset has one entry, four movies match a search,
  and the splitter cuts a text into pieces of the chunk size.
\<close>

definition sample_movie :: json where
  "sample_movie = JObj [(''title'', JStr ''Fight Club''), (''plot'', JStr ''An insomniac office worker'')]"

definition sample_workplace_doc :: json where
  "sample_workplace_doc =
     JObj [(''content'', JStr ''Employees may bring pets to the office on Fridays, with approval.''),
           (''name'', JStr ''Pet policy''),
           (''summary'', JStr ''Pets''), (''rolePermissions'', JList [JStr ''demo''])]"

definition sample_hit :: json where
  "sample_hit = JObj [(''_id'', JStr ''1''), (''_score'', JNum 1), (''_source'', sample_movie)]"

definition sample_response :: "nat \<Rightarrow> json" where
  "sample_response limit = JObj [(''hits'', JObj [(''hits'', JList (take limit [sample_hit, sample_hit, sample_hit, sample_hit]))])]"

fun pieces :: "nat \<Rightarrow> string \<Rightarrow> string \<Rightarrow> string list" where
  "pieces width piece [] = (if piece = [] then [] else [piece])"
| "pieces width piece (ch # rest) =
     (if width \<le> length piece + 1 then (piece @ [ch]) # pieces width [] rest
      else pieces width (piece @ [ch]) rest)"

definition sample_split_text :: "nat \<Rightarrow> nat \<Rightarrow> json \<Rightarrow> string list" where
  "sample_split_text chunk_size chunk_overlap text =
     (case text of JStr t \<Rightarrow> pieces chunk_size [] t | _ \<Rightarrow> [])"

definition sample_splitter :: "nat \<Rightarrow> nat \<Rightarrow> json list \<Rightarrow> json list \<Rightarrow> error + document list" where
  "sample_splitter chunk_size chunk_overlap texts metadatas =
     Inr (concat (map (\<lambda>tm. chunk_documents (sample_split_text chunk_size chunk_overlap (fst tm)) (snd tm))
                      (zip texts metadatas)))"

definition sample_passage :: document where
  "sample_passage = \<lparr>page_content = ''Pets are allowed'', metadata = JObj []\<rparr>"

definition sample_env :: "cluster env" where
  "sample_env =
     \<lparr>getpass = (\<lambda>prompt c. (Inr ''secret'', c)),
      new_elasticsearch = (\<lambda>cloud_id api_key c. (Inr (), c)),
      client_info = (\<lambda>c. (Inr (JObj [(''tagline'', JStr ''You Know, for Search'')]), c)),
      inference_put_model = (\<lambda>task_type model_id body c. (Inr acknowledged, c)),
      ingest_put_pipeline = (\<lambda>pipeline_id description processors c. (Inr acknowledged, c)),
      indices_delete = es_indices_delete,
      indices_create = es_indices_create,
      urlopen_read = (\<lambda>url c. (Inr (if url = movies_url then ''movies'' else ''workplace''), c)),
      json_loads = (\<lambda>body. Inr (JList [if body = ''movies'' then sample_movie else sample_workplace_doc])),
      helpers_bulk = (\<lambda>actions c. (Inr (), c)),
      client_search = (\<lambda>index size knn c. (Inr (sample_response size), c)),
      create_documents = sample_splitter,
      from_documents = (\<lambda>docs cloud_id api_key index c. (Inr (), c)),
      notebook_login = (\<lambda>c. (Inr (), c)),
      model_from_pretrained = (\<lambda>name c. (Inr (), c)),
      tokenizer_from_pretrained = (\<lambda>name c. (Inr (), c)),
      retrieve = (\<lambda>k query c. (Inr (take k [sample_passage]), c)),
      prompt_format = (\<lambda>text inputs. Inr (concat (map snd inputs))),
      llm_invoke = (\<lambda>text c. (Inr ''Answer: yes'', c)),
      parse_output = (\<lambda>output. Inr output)\<rparr>"

text \<open>The same world with the dataset's download failing.\<close>

definition failing_env :: "cluster env" where
  "failing_env = sample_env\<lparr>urlopen_read := (\<lambda>url c. (Inl (Raised ''URLError''), c))\<rparr>"

text \<open>The same world with a dataset that does not decode.\<close>

definition undecodable_env :: "cluster env" where
  "undecodable_env = sample_env\<lparr>json_loads := (\<lambda>body. Inl (Raised ''JSONDecodeError''))\<rparr>"

text \<open>An index left over from an earlier run, with a document in it.\<close>

definition old_index :: index_state where
  "old_index = \<lparr>settings = JNull, mappings = JNull, documents = [sample_movie]\<rparr>"

section \<open>Properties\<close>

subsection \<open>\<^verbatim>\<open>format_docs\<close>\<close>

lemma str_join_Cons: "str_join sep (x # xs) = x @ concat (map (\<lambda>y. sep @ y) xs)"
  by (induction xs arbitrary: x) simp_all

text \<open>
  C6. For every list of retrieved documents, the empty list included, \<^verbatim>\<open>format_docs\<close>
  returns the \<^verbatim>\<open>page_content\<close> strings in input order with two newlines between
  neighbours: the empty string for no document, and otherwise the first content followed
  by each further content prefixed with the separator.
\<close>

theorem format_docs_joins:
  "format_docs [] = []
   \<and> format_docs (d # ds) =
       page_content d @ concat (map (\<lambda>x. [CHR 0x0A, CHR 0x0A] @ page_content x) ds)"
  by (simp add: format_docs_def newline2_def str_join_Cons comp_def)

subsection \<open>Running programs\<close>

lemma perform_bind:
  "bind (perform c m) f s =
     (case m (fst s) of
        (Inl e, w') \<Rightarrow> (Inl e, (w', snd s @ [(c, Some e)]))
      | (Inr x, w') \<Rightarrow> f x (w', snd s @ [(c, None)]))"
  by (simp add: bind_def perform_def split: prod.splits sum.splits)

lemma lift_bind: "bind (lift r) f s = (case r of Inl e \<Rightarrow> (Inl e, s) | Inr x \<Rightarrow> f x s)"
  by (simp add: bind_def lift_def split: sum.splits)

lemma emit_bind: "bind (emit c) f s = f () (fst s, snd s @ [(c, None)])"
  by (simp add: bind_def emit_def perform_def)

lemma bind_assoc: "bind (bind m f) g = bind m (\<lambda>x. bind (f x) g)"
  by (rule ext) (simp add: bind_def split: prod.splits sum.splits)

lemma perform_run:
  "perform c m s =
     (case m (fst s) of
        (Inl e, w') \<Rightarrow> (Inl e, (w', snd s @ [(c, Some e)]))
      | (Inr x, w') \<Rightarrow> (Inr x, (w', snd s @ [(c, None)])))"
  by (simp add: perform_def)

lemma emit_run: "emit c s = (Inr (), (fst s, snd s @ [(c, None)]))"
  by (simp add: emit_def perform_def)

lemma lift_run: "lift r s = (r, s)"
  by (simp add: lift_def)

lemmas run_simps = bind_assoc perform_bind lift_bind emit_bind perform_run emit_run lift_run seq_def

lemma map_fst_ok [simp]: "map fst (ok ps) = ps"
  by (simp add: ok_def comp_def)

lemma follows_ok: "follows cs (ok cs) r"
  by (induction cs) (simp_all add: ok_def)

lemma print_hit_run:
  "print_hit hit s = (r, s') \<Longrightarrow>
     (\<exists>e. r = Inl e \<and> s' = s) \<or> (\<exists>c. r = Inr () \<and> is_hit_line c \<and> s' = (fst s, snd s @ [(c, None)]))"
  by (auto simp: print_hit_def run_simps hit_line_def is_hit_line_def split: sum.splits)

lemma for_each_print_hit:
  "for_each hits print_hit s = (r, s') \<Longrightarrow>
     \<exists>ps. list_all is_hit_line ps \<and> length ps \<le> length hits \<and> fst s' = fst s \<and> snd s' = snd s @ ok ps"
proof (induction hits arbitrary: s)
  case Nil
  then show ?case by (auto simp: lift_def ok_def)
next
  case (Cons h hs)
  obtain r1 s1 where p: "print_hit h s = (r1, s1)" by (cases "print_hit h s")
  show ?case
  proof (cases r1)
    case (Inl e)
    with p Cons.prems print_hit_run[OF p] show ?thesis
      by (auto simp: seq_def bind_def ok_def intro: exI[of _ "[]"])
  next
    case (Inr u)
    with p Cons.prems have rest: "for_each hs print_hit s1 = (r, s')"
      by (simp add: seq_def bind_def)
    from print_hit_run[OF p] Inr obtain c where c: "is_hit_line c" "s1 = (fst s, snd s @ [(c, None)])"
      by auto
    from Cons.IH[OF rest] obtain ps where ps: "list_all is_hit_line ps" "length ps \<le> length hs"
         "fst s' = fst s1" "snd s' = snd s1 @ ok ps" by blast
    with c show ?thesis
      by (intro exI[of _ "c # ps"]) (simp add: ok_def)
  qed
qed

lemmas cohere_cells = cohere_notebook_def connect_cell_def info_cell_def inference_cell_def
      pipeline_cell_def index_setup_cell_def insert_cell_def search_cell_def

lemma cohere_follows:
  assumes "cohere_notebook env (w, []) = (out, s')"
  shows "\<exists>cloud_id api_key info cohere_key r1 r2 r3 elements.
           follows (cohere_script cloud_id api_key info cohere_key r1 r2 r3 elements ''Fighting movie''
                     @ drop 18 (calls s')) (snd s') out
           \<and> list_all is_hit_line (drop 18 (calls s'))"
  using assms
  by (auto simp add: cohere_cells calls_def run_simps cohere_script_def
      follows_ok drop_map[symmetric]
      split: prod.splits sum.splits dest!: for_each_print_hit)

lemmas gemma_cells = gemma_notebook_def credentials_cell_def download_cell_def split_cell_def
  index_cell_def model_cell_def ask_cell_def chain_def pipe_def runnable_parallel_def
  runnable_lambda_def runnable_passthrough_def retriever_def prompt_def llm_def
  str_output_parser_def

lemma gemma_follows:
  assumes "gemma_notebook env (w, []) = (out, s')"
  shows "\<exists>api_key cloud_id docs filled answer.
           follows (gemma_script api_key cloud_id docs ''What is the pet policy in the office?'' filled answer)
              (snd s') out"
  using assms
  by (auto simp add: gemma_cells calls_def run_simps gemma_script_def
      split: prod.splits sum.splits)

lemma print_hit_outcome:
  "print_hit hit s = (r, s') \<Longrightarrow>
     (case hit_error hit of
        Some e \<Rightarrow> r = Inl e \<and> s' = s
      | None \<Rightarrow> r = Inr () \<and> (\<exists>c. is_hit_line c \<and> s' = (fst s, snd s @ [(c, None)])))"
  by (auto simp: print_hit_def run_simps hit_line_def is_hit_line_def hit_error_def
      split: sum.splits)

lemma for_each_print_hit_outcome:
  "for_each hits print_hit s = (r, s') \<Longrightarrow>
     \<exists>ps. list_all is_hit_line ps \<and> fst s' = fst s \<and> snd s' = snd s @ ok ps
       \<and> (r = Inr () \<longrightarrow> length ps = length hits \<and> list_all (\<lambda>h. hit_error h = None) hits)
       \<and> (\<forall>e. r = Inl e \<longrightarrow> length ps < length hits \<and> hit_error (hits ! length ps) = Some e
                \<and> list_all (\<lambda>h. hit_error h = None) (take (length ps) hits))"
proof (induction hits arbitrary: s)
  case Nil
  then show ?case by (auto simp: lift_def ok_def)
next
  case (Cons h hs)
  obtain r1 s1 where p: "print_hit h s = (r1, s1)" by (cases "print_hit h s")
  show ?case
  proof (cases "hit_error h")
    case (Some e)
    with print_hit_outcome[OF p] have "r1 = Inl e" "s1 = s" by simp_all
    with p Cons.prems have "r = Inl e" "s' = s" by (simp_all add: seq_def bind_def)
    with Some show ?thesis by (intro exI[of _ "[]"]) (simp add: ok_def)
  next
    case None
    with print_hit_outcome[OF p] obtain c where c: "r1 = Inr ()" "is_hit_line c"
      "s1 = (fst s, snd s @ [(c, None)])" by auto
    with p Cons.prems have rest: "for_each hs print_hit s1 = (r, s')"
      by (simp add: seq_def bind_def)
    from Cons.IH[OF rest] obtain ps where ps: "list_all is_hit_line ps" "fst s' = fst s1"
      "snd s' = snd s1 @ ok ps"
      "r = Inr () \<longrightarrow> length ps = length hs \<and> list_all (\<lambda>h. hit_error h = None) hs"
      "\<forall>e. r = Inl e \<longrightarrow> length ps < length hs \<and> hit_error (hs ! length ps) = Some e
                \<and> list_all (\<lambda>h. hit_error h = None) (take (length ps) hs)"
      by blast
    with c None show ?thesis
      by (intro exI[of _ "c # ps"]) (simp add: ok_def)
  qed
qed

lemma ok_Cons: "ok (c # cs) = (c, None) # ok cs"
  by (simp add: ok_def)

lemma ok_Nil: "ok [] = []"
  by (simp add: ok_def)

lemma ok_append: "ok (xs @ ys) = ok xs @ ok ys"
  by (simp add: ok_def)

lemma cohere_complete:
  assumes "cohere_notebook env (w, []) = (Inr (), s')"
  shows "\<exists>cloud_id api_key info cohere_key r1 r2 r3 w1 w2 body data elements w3 response hits ps.
      urlopen_read env movies_url w1 = (Inr body, w2) \<and> json_loads env body = Inr data
    \<and> py_iter data = Inr elements
    \<and> client_search env movie_index 3 (knn_clause ''Fighting movie'') w3 = (Inr response, fst s')
    \<and> response_hits response = Inr hits \<and> list_all (\<lambda>h. hit_error h = None) hits
    \<and> length ps = length hits \<and> list_all is_hit_line ps
    \<and> snd s' = ok (cohere_script cloud_id api_key info cohere_key r1 r2 r3 elements ''Fighting movie'' @ ps)"
  using assms
  apply (clarsimp simp add: cohere_cells run_simps split: prod.splits sum.splits)
  apply (drule for_each_print_hit_outcome)
  apply (clarsimp simp add: cohere_script_def ok_Cons ok_Nil ok_append)
  apply (intro exI conjI; (assumption | rule refl))
  done

lemma cohere_inprocess:
  assumes "cohere_notebook env (w, []) = (Inl e, s')"
    and "list_all (\<lambda>entry. snd entry = None) (snd s')"
  shows "(\<exists>w1 body. urlopen_read env movies_url w1 = (Inr body, fst s') \<and> length (snd s') = 14
            \<and> (json_loads env body = Inl e
                \<or> (\<exists>data. json_loads env body = Inr data \<and> py_iter data = Inl e)))
       \<or> (\<exists>w3 response.
             client_search env movie_index 3 (knn_clause ''Fighting movie'') w3 = (Inr response, fst s')
            \<and> (response_hits response = Inl e \<and> length (snd s') = 18
                \<or> (\<exists>hits n. response_hits response = Inr hits \<and> n < length hits
                      \<and> hit_error (hits ! n) = Some e
                      \<and> list_all (\<lambda>h. hit_error h = None) (take n hits)
                      \<and> length (snd s') = 18 + n)))"
  using assms
  by (auto simp add: cohere_cells run_simps ok_def split: prod.splits sum.splits
      dest!: for_each_print_hit_outcome)

lemma gemma_complete:
  assumes "gemma_notebook env (w, []) = (Inr (), s')"
  shows "\<exists>api_key cloud_id w1 w2 body data elements docs w3 w4 retrieved filled output answer.
      urlopen_read env workplace_url w1 = (Inr body, w2) \<and> json_loads env body = Inr data
    \<and> py_iter data = Inr elements
    \<and> split_documents (create_documents env) elements = Inr docs
    \<and> retrieve env 10 ''What is the pet policy in the office?'' w3 = (Inr retrieved, w4)
    \<and> prompt_format env template
          [(''context'', format_docs retrieved),
           (''question'', ''What is the pet policy in the office?'')] = Inr filled
    \<and> llm_invoke env filled w4 = (Inr output, fst s')
    \<and> parse_output env output = Inr answer
    \<and> snd s' = ok (gemma_script api_key cloud_id docs ''What is the pet policy in the office?''
                      filled answer)"
  using assms
  apply (clarsimp simp add: gemma_cells run_simps gemma_script_def ok_Cons ok_Nil
      split: prod.splits sum.splits)
  apply (intro exI conjI; (assumption | rule refl))
  done

lemma gemma_inprocess:
  assumes "gemma_notebook env (w, []) = (Inl e, s')"
    and "list_all (\<lambda>entry. snd entry = None) (snd s')"
  shows "(\<exists>w1 body. urlopen_read env workplace_url w1 = (Inr body, fst s') \<and> length (snd s') = 3
            \<and> (json_loads env body = Inl e
                \<or> (\<exists>data. json_loads env body = Inr data
                      \<and> (py_iter data = Inl e
                          \<or> (\<exists>elements. py_iter data = Inr elements
                                \<and> split_documents (create_documents env) elements = Inl e)))))
       \<or> (\<exists>w3 retrieved.
             retrieve env 10 ''What is the pet policy in the office?'' w3 = (Inr retrieved, fst s')
            \<and> length (snd s') = 9
            \<and> prompt_format env template
                  [(''context'', format_docs retrieved),
                   (''question'', ''What is the pet policy in the office?'')] = Inl e)
       \<or> (\<exists>w5 filled output. llm_invoke env filled w5 = (Inr output, fst s')
            \<and> length (snd s') = 10 \<and> parse_output env output = Inl e)"
  using assms
  by (auto simp add: gemma_cells run_simps split: prod.splits sum.splits)

lemmas sample_defs = sample_env_def sample_response_def sample_hit_def sample_movie_def
  sample_workplace_doc_def sample_splitter_def sample_split_text_def sample_passage_def
  es_indices_delete_def es_indices_create_def acknowledged_def response_hits_def sum_bind_def
  items_get_def print_hit_def hit_line_def prepare_documents_def bulk_action_def
  split_documents_def chunk_documents_def format_docs_def

subsection \<open>Traces\<close>

lemma follows_prefix: "follows script tr r \<Longrightarrow> prefix (map fst tr) script"
  by (induction script tr r rule: follows.induct) simp_all

lemma follows_fail_stop:
  "follows script tr r \<Longrightarrow> i < length tr \<Longrightarrow> snd (tr ! i) = Some e \<Longrightarrow> Suc i = length tr \<and> r = Inl e"
proof (induction script tr r arbitrary: i rule: follows.induct)
  case (3 c script c' tr r)
  then show ?case by (cases i) auto
next
  case (4 c script c' e' tr r)
  then show ?case by (cases i) auto
qed simp_all

lemma list_ex_prefix: "prefix xs ys \<Longrightarrow> list_ex P xs \<Longrightarrow> list_ex P ys"
  by (auto simp: prefix_def)

lemma all_before_nth:
  "all_before P Q xs \<Longrightarrow> i < length xs \<Longrightarrow> j < length xs \<Longrightarrow> P (xs ! i) \<Longrightarrow> Q (xs ! j) \<Longrightarrow> i < j"
proof (induction xs arbitrary: i j)
  case Nil
  then show ?case by simp
next
  case (Cons x xs)
  show ?case
  proof (cases "Q x")
    case True
    with Cons.prems(1) have "\<not> list_ex P (x # xs)" by simp
    moreover from Cons.prems(2,4) have "list_ex P (x # xs)"
      unfolding list_ex_iff using nth_mem by blast
    ultimately show ?thesis by contradiction
  next
    case False
    with Cons.prems(1) have rest: "all_before P Q xs" by simp
    from False Cons.prems(5) obtain j' where j: "j = Suc j'" by (cases j) auto
    show ?thesis
    proof (cases i)
      case 0
      with j show ?thesis by simp
    next
      case (Suc i')
      with j Cons.prems have "i' < length xs" "j' < length xs" "P (xs ! i')" "Q (xs ! j')"
        by simp_all
      from Cons.IH[OF rest this] Suc j show ?thesis by simp
    qed
  qed
qed

lemma all_before_prefix: "prefix xs ys \<Longrightarrow> all_before P Q ys \<Longrightarrow> all_before P Q xs"
proof (induction xs arbitrary: ys)
  case Nil
  then show ?case by simp
next
  case (Cons x xs)
  then obtain ys' where ys: "ys = x # ys'" "prefix xs ys'"
    by (cases ys) auto
  show ?case
  proof (cases "Q x")
    case True
    with Cons.prems(2) ys have "\<not> list_ex P (x # ys')" by simp
    moreover from ys(2) have "prefix (x # xs) (x # ys')" by simp
    ultimately have "\<not> list_ex P (x # xs)"
      using list_ex_prefix by blast
    with True show ?thesis by simp
  next
    case False
    with Cons.prems(2) ys have "all_before P Q ys'" by simp
    with Cons.IH[OF ys(2)] False show ?thesis by simp
  qed
qed

lemma all_before_tail:
  "\<not> list_ex P ys \<Longrightarrow> all_before P Q xs \<Longrightarrow> all_before P Q (xs @ ys)"
proof (induction xs)
  case Nil
  then show ?case by (induction ys) auto
next
  case (Cons x xs)
  then show ?case by (auto simp: list_ex_iff)
qed

subsection \<open>The bulk actions\<close>

lemma append_actions_map: "append_actions acc ds = acc @ map bulk_action ds"
  by (induction ds arbitrary: acc) simp_all

text \<open>
  C7. The document-preparation loop maps each element of the downloaded list to exactly
  one bulk action whose \<^verbatim>\<open>_index\<close> is \<^verbatim>\<open>cohere-movie-embeddings\<close> and whose
  \<^verbatim>\<open>_source\<close> is the element itself, in the list's order and with the list's length;
  when the download and the decoding succeed, the list of these actions is what the
  cell hands to \<^verbatim>\<open>helpers.bulk\<close>, right after the download.
\<close>

theorem prepare_documents_map:
  "prepare_documents data_json =
     map (\<lambda>doc. JObj [(''_index'', JStr ''cohere-movie-embeddings''), (''_source'', doc)]) data_json
   \<and> length (prepare_documents data_json) = length data_json
   \<and> map (\<lambda>a. case a of JObj kvs \<Rightarrow> items_get kvs ''_source'' | _ \<Rightarrow> None)
        (prepare_documents data_json) = map Some data_json
   \<and> (urlopen_read env movies_url w = (Inr body, w') \<longrightarrow> json_loads env body = Inr (JList data_json)
        \<longrightarrow> take 2 (drop (length tr) (calls (snd (insert_cell env (w, tr))))) =
             [Urlopen movies_url,
              HelpersBulk (map (\<lambda>doc. JObj [(''_index'', JStr ''cohere-movie-embeddings''),
                                             (''_source'', doc)]) data_json)])"
  by (auto simp add: prepare_documents_def append_actions_map bulk_action_def movie_index_def
      items_get_def comp_def insert_cell_def run_simps calls_def split: prod.splits sum.splits)

theorem prepare_documents_map_witness:
  "calls (snd (insert_cell sample_env (Map.empty, []))) =
     [Urlopen movies_url,
      HelpersBulk [JObj [(''_index'', JStr ''cohere-movie-embeddings''), (''_source'', sample_movie)]],
      Print [Lit ''Done indexing documents into `cohere-movie-embeddings` index!''],
      Sleep 3]"
proof -
  have u: "urlopen_read sample_env movies_url Map.empty = (Inr ''movies'', Map.empty)"
    and j: "json_loads sample_env ''movies'' = Inr (JList [sample_movie])"
    by (simp_all add: sample_env_def)
  have rest: "drop 2 (calls (snd (insert_cell sample_env (Map.empty, [])))) =
      [Print [Lit ''Done indexing documents into `cohere-movie-embeddings` index!''], Sleep 3]"
    by (simp add: insert_cell_def run_simps sample_defs calls_def)
  from prepare_documents_map[of "[sample_movie]" sample_env Map.empty "''movies''" Map.empty "[]"] u j
  have "take 2 (calls (snd (insert_cell sample_env (Map.empty, [])))) =
      [Urlopen movies_url,
       HelpersBulk [JObj [(''_index'', JStr ''cohere-movie-embeddings''), (''_source'', sample_movie)]]]"
    by simp
  with rest show ?thesis
    by (metis append_take_drop_id append_Cons append_Nil)
qed

subsection \<open>The chain\<close>

lemma chain_run: "chain env question = rag_sequential env question"
  by (rule ext) (simp add: gemma_cells rag_sequential_def run_simps split: prod.splits sum.splits)

text \<open>
  C5. For every question, the chain's run is the run of its stages one after another:
  retrieve the documents for the question, apply \<^verbatim>\<open>format_docs\<close>, fill the prompt
  template with that context and the question, run the model on the filled prompt, parse
  the output. A run that returns an answer has made exactly two calls to the outside, the
  retrieval and then the model, each once: no stage is repeated or fed back.
\<close>

theorem chain_is_sequential:
  "chain env question = rag_sequential env question
   \<and> (\<forall>w tr answer s'. chain env question (w, tr) = (Inr answer, s')
         \<longrightarrow> (\<exists>docs filled.
               prompt_format env template [(''context'', format_docs docs), (''question'', question)] = Inr filled
               \<and> snd s' = tr @ [(Retrieve 10 question, None), (LlmInvoke filled, None)]))"
  by (auto simp add: chain_run rag_sequential_def run_simps split: prod.splits sum.splits)

theorem chain_is_sequential_witness:
  "chain sample_env ''pets?'' = rag_sequential sample_env ''pets?''
   \<and> chain sample_env ''pets?'' (Map.empty, []) =
       (Inr ''Answer: yes'',
        (Map.empty, [(Retrieve 10 ''pets?'', None), (LlmInvoke ''Pets are allowedpets?'', None)]))"
  using chain_is_sequential[of sample_env "''pets?''"]
  by (simp add: rag_sequential_def run_simps sample_env_def format_docs_def sample_passage_def)

subsection \<open>Chunks and their parents\<close>

lemma collect_acc:
  "collect content metadatas ds = Inr (cs, ms) \<Longrightarrow>
     list_all has_fields ds
     \<and> cs = content @ map (\<lambda>d. projr (py_getitem d ''content'')) ds
     \<and> ms = metadatas @ map (\<lambda>d. projr (parent_metadata d)) ds"
proof (induction ds arbitrary: content metadatas)
  case Nil
  then show ?case by simp
next
  case (Cons d ds)
  from Cons.prems obtain c n s r where
    f: "py_getitem d ''content'' = Inr c" "py_getitem d ''name'' = Inr n"
       "py_getitem d ''summary'' = Inr s" "py_getitem d ''rolePermissions'' = Inr r"
    and rest: "collect (content @ [c]) (metadatas @ [doc_metadata n s r]) ds = Inr (cs, ms)"
    by (auto split: sum.splits)
  from Cons.IH[OF rest] f show ?case
    by (simp add: has_fields_def parent_metadata_def sum_bind_def doc_metadata_def)
qed

lemma chunks_of_parent_fields:
  "has_fields d \<Longrightarrow>
     chunks_of_parent split_text d =
       chunk_documents (split_text 50 0 (projr (py_getitem d ''content''))) (projr (parent_metadata d))"
  by (auto simp: has_fields_def chunks_of_parent_def parent_metadata_def sum_bind_def
      split: sum.splits)

lemma chunks_of_parent_metadata:
  "doc \<in> set (chunks_of_parent split_text d) \<Longrightarrow> parent_metadata d = Inr (metadata doc)"
  by (auto simp: chunks_of_parent_def chunk_documents_def split: sum.splits)

text \<open>
  C3. Given that the splitter turns the chunks of the i-th text into documents with the
  i-th metadata, a successful splitting step returns, parent by parent in the dataset's
  order, the chunks of each downloaded document's \<^verbatim>\<open>content\<close>, every chunk carrying
  the metadata built from that parent: its \<^verbatim>\<open>name\<close>, \<^verbatim>\<open>summary\<close> and
  \<^verbatim>\<open>rolePermissions\<close> and nothing else.
\<close>

theorem chunks_carry_parent_metadata:
  assumes "pairs_chunks_with_metadata splitter split_text"
    and "split_documents splitter workplace_docs = Inr docs"
  shows "list_all has_fields workplace_docs
         \<and> docs = concat (map (chunks_of_parent split_text) workplace_docs)
         \<and> list_all (\<lambda>doc. list_ex (\<lambda>parent. parent_metadata parent = Inr (metadata doc)
                                          \<and> doc \<in> set (chunks_of_parent split_text parent))
                                 workplace_docs) docs"
proof -
  from assms(2) obtain cs ms where c: "collect [] [] workplace_docs = Inr (cs, ms)"
    and s: "splitter 50 0 cs ms = Inr docs"
    by (auto simp: split_documents_def sum_bind_def split: sum.splits)
  from collect_acc[OF c] have fields: "list_all has_fields workplace_docs"
    and cs: "cs = map (\<lambda>d. projr (py_getitem d ''content'')) workplace_docs"
    and ms: "ms = map (\<lambda>d. projr (parent_metadata d)) workplace_docs"
    by simp_all
  from cs ms have len: "length cs = length ms" by simp
  from assms(1) s len have
    "docs = concat (map (\<lambda>tm. chunk_documents (split_text 50 0 (fst tm)) (snd tm)) (zip cs ms))"
    unfolding pairs_chunks_with_metadata_def by blast
  also have "zip cs ms = map (\<lambda>d. (projr (py_getitem d ''content''), projr (parent_metadata d))) workplace_docs"
    unfolding cs ms by (simp add: zip_map_map zip_same_conv_map)
  finally have "docs = concat (map (\<lambda>d. chunk_documents (split_text 50 0 (projr (py_getitem d ''content'')))
                                          (projr (parent_metadata d))) workplace_docs)"
    by (simp add: comp_def)
  also have "map (\<lambda>d. chunk_documents (split_text 50 0 (projr (py_getitem d ''content'')))
                                          (projr (parent_metadata d))) workplace_docs
             = map (chunks_of_parent split_text) workplace_docs"
    using fields by (intro map_cong refl) (simp add: list_all_iff chunks_of_parent_fields)
  finally have docs: "docs = concat (map (chunks_of_parent split_text) workplace_docs)" .
  have "list_all (\<lambda>doc. list_ex (\<lambda>parent. parent_metadata parent = Inr (metadata doc)
                                          \<and> doc \<in> set (chunks_of_parent split_text parent))
                                 workplace_docs) docs"
    unfolding docs list_all_iff list_ex_iff using chunks_of_parent_metadata by fastforce
  with fields docs show ?thesis by simp
qed

lemma sample_splitter_pairs: "pairs_chunks_with_metadata sample_splitter sample_split_text"
  by (simp add: pairs_chunks_with_metadata_def sample_splitter_def)

theorem chunks_carry_parent_metadata_witness:
  "pairs_chunks_with_metadata sample_splitter sample_split_text
   \<and> split_documents sample_splitter [sample_workplace_doc, sample_workplace_doc] =
       Inr (concat (map (chunks_of_parent sample_split_text) [sample_workplace_doc, sample_workplace_doc]))
   \<and> chunks_of_parent sample_split_text sample_workplace_doc =
       [\<lparr>page_content = ''Employees may bring pets to the office on Fridays,'',
         metadata = JObj [(''name'', JStr ''Pet policy''), (''summary'', JStr ''Pets''),
                          (''rolePermissions'', JList [JStr ''demo''])]\<rparr>,
        \<lparr>page_content = '' with approval.'',
         metadata = JObj [(''name'', JStr ''Pet policy''), (''summary'', JStr ''Pets''),
                          (''rolePermissions'', JList [JStr ''demo''])]\<rparr>]"
proof -
  have h: "pairs_chunks_with_metadata sample_splitter sample_split_text"
    by (rule sample_splitter_pairs)
  have "\<exists>docs. split_documents sample_splitter [sample_workplace_doc, sample_workplace_doc] = Inr docs"
    by (simp add: split_documents_def sum_bind_def sample_splitter_def sample_workplace_doc_def
        items_get_def)
  then obtain docs where
    d: "split_documents sample_splitter [sample_workplace_doc, sample_workplace_doc] = Inr docs" ..
  from chunks_carry_parent_metadata[OF h d] d
  have "split_documents sample_splitter [sample_workplace_doc, sample_workplace_doc] =
       Inr (concat (map (chunks_of_parent sample_split_text) [sample_workplace_doc, sample_workplace_doc]))"
    by simp
  moreover have "chunks_of_parent sample_split_text sample_workplace_doc =
       [\<lparr>page_content = ''Employees may bring pets to the office on Fridays,'',
         metadata = JObj [(''name'', JStr ''Pet policy''), (''summary'', JStr ''Pets''),
                          (''rolePermissions'', JList [JStr ''demo''])]\<rparr>,
        \<lparr>page_content = '' with approval.'',
         metadata = JObj [(''name'', JStr ''Pet policy''), (''summary'', JStr ''Pets''),
                          (''rolePermissions'', JList [JStr ''demo''])]\<rparr>]"
    by (simp add: chunks_of_parent_def parent_metadata_def sum_bind_def sample_workplace_doc_def
        items_get_def sample_split_text_def chunk_documents_def)
  ultimately show ?thesis using h by simp
qed

subsection \<open>The order of the calls\<close>

lemmas order_defs = is_hit_line_def is_credential_def is_elastic_credential_def
  is_cohere_credential_def is_hub_login_def is_service_call_def uses_cohere_key_def
  is_hub_call_def is_download_def is_indexing_def is_query_def is_result_output_def
  is_other_call_def

lemma hit_lines_only:
  assumes "list_all is_hit_line ps"
  shows "\<not> list_ex is_elastic_credential ps" "\<not> list_ex is_cohere_credential ps"
    "\<not> list_ex is_hub_login ps" "\<not> list_ex is_download ps" "\<not> list_ex is_indexing ps"
    "\<not> list_ex is_other_call ps"
  using assms
  by (auto simp: list_all_iff list_ex_iff order_defs split: call.splits)

lemma cohere_script_order:
  "all_before is_elastic_credential is_service_call (cohere_script a b c d e f g h q)"
  "all_before is_cohere_credential uses_cohere_key (cohere_script a b c d e f g h q)"
  "all_before is_hub_login is_hub_call (cohere_script a b c d e f g h q)"
  "all_before is_download is_indexing (cohere_script a b c d e f g h q)"
  "all_before is_indexing is_query (cohere_script a b c d e f g h q)"
  "all_before is_other_call is_result_output (cohere_script a b c d e f g h q)"
  by (simp_all add: cohere_script_def order_defs)

lemma gemma_script_order:
  "all_before is_elastic_credential is_service_call (gemma_script a b c d e f)"
  "all_before is_cohere_credential uses_cohere_key (gemma_script a b c d e f)"
  "all_before is_hub_login is_hub_call (gemma_script a b c d e f)"
  "all_before is_download is_indexing (gemma_script a b c d e f)"
  "all_before is_indexing is_query (gemma_script a b c d e f)"
  "all_before is_other_call is_result_output (gemma_script a b c d e f)"
  by (simp_all add: gemma_script_def order_defs)

lemma preceded_nth:
  "preceded P Q xs \<Longrightarrow> j < length xs \<Longrightarrow> Q (xs ! j) \<Longrightarrow> \<exists>i<j. P (xs ! i)"
proof (induction xs arbitrary: j)
  case Nil
  then show ?case by simp
next
  case (Cons x xs)
  from Cons.prems(1) have nq: "\<not> Q x" by (simp split: if_splits)
  with Cons.prems(3) obtain j' where j: "j = Suc j'" by (cases j) auto
  show ?case
  proof (cases "P x")
    case True
    with j show ?thesis by (intro exI[of _ 0]) simp
  next
    case False
    with nq Cons.prems(1) have "preceded P Q xs" by simp
    from Cons.IH[OF this, of j'] Cons.prems j obtain i where "i < j'" "P (xs ! i)" by auto
    with j show ?thesis by (intro exI[of _ "Suc i"]) simp
  qed
qed

lemma follows_preceded:
  "follows script tr r \<Longrightarrow> preceded P Q script
     \<Longrightarrow> preceded (succeeded P) (attempted Q) tr"
  by (induction script tr r rule: follows.induct)
     (auto simp: succeeded_def attempted_def split: if_splits)

lemma preceded_none: "\<not> list_ex Q xs \<Longrightarrow> preceded P Q xs"
  by (induction xs) auto

lemmas preceded_defs = reads_cloud_id_def reads_api_key_def

lemma hit_lines_no_hub:
  assumes "list_all is_hit_line ps"
  shows "preceded P is_hub_call ps"
  using assms
  by (intro preceded_none) (auto simp: list_all_iff list_ex_iff order_defs split: call.splits)

lemma cohere_script_preceded:
  assumes "list_all is_hit_line ps"
  shows "preceded reads_cloud_id is_service_call (cohere_script a b c d e f g h q @ ps)"
    "preceded reads_api_key is_service_call (cohere_script a b c d e f g h q @ ps)"
    "preceded is_cohere_credential uses_cohere_key (cohere_script a b c d e f g h q @ ps)"
    "preceded is_hub_login is_hub_call (cohere_script a b c d e f g h q @ ps)"
    "preceded is_download is_indexing (cohere_script a b c d e f g h q @ ps)"
    "preceded is_indexing is_query (cohere_script a b c d e f g h q @ ps)"
    "preceded is_query is_result_output (cohere_script a b c d e f g h q @ ps)"
  using hit_lines_no_hub[OF assms]
  by (simp_all add: cohere_script_def order_defs preceded_defs)

lemma gemma_script_preceded:
  "preceded reads_cloud_id is_service_call (gemma_script a b c d e f)"
  "preceded reads_api_key is_service_call (gemma_script a b c d e f)"
  "preceded is_cohere_credential uses_cohere_key (gemma_script a b c d e f)"
  "preceded is_hub_login is_hub_call (gemma_script a b c d e f)"
  "preceded is_download is_indexing (gemma_script a b c d e f)"
  "preceded is_indexing is_query (gemma_script a b c d e f)"
  "preceded is_query is_result_output (gemma_script a b c d e f)"
  by (simp_all add: gemma_script_def order_defs preceded_defs)

lemma cohere_steps_in_order:
  assumes "cohere_notebook env (w, []) = (out, s')"
  shows "steps_in_order (snd s')"
proof -
  from assms cohere_follows[of env w out s'] obtain a b c d e f g h where
    fo: "follows (cohere_script a b c d e f g h ''Fighting movie'' @ drop 18 (calls s')) (snd s') out"
    and hl: "list_all is_hit_line (drop 18 (calls s'))"
    by blast
  from follows_prefix[OF fo]
  have p: "prefix (map fst (snd s'))
             (cohere_script a b c d e f g h ''Fighting movie'' @ drop 18 (calls s'))" .
  show ?thesis
    unfolding steps_in_order_def
    by (intro conjI all_before_prefix[OF p] all_before_tail hit_lines_only[OF hl]
        cohere_script_order follows_preceded[OF fo] cohere_script_preceded[OF hl])
qed

lemma gemma_steps_in_order:
  assumes "gemma_notebook env (w, []) = (out, s')"
  shows "steps_in_order (snd s')"
proof -
  from assms gemma_follows[of env w out s'] obtain a b c d e where
    fo: "follows (gemma_script a b c ''What is the pet policy in the office?'' d e) (snd s') out"
    by blast
  from follows_prefix[OF fo]
  have p: "prefix (map fst (snd s'))
             (gemma_script a b c ''What is the pet policy in the office?'' d e)" .
  show ?thesis
    unfolding steps_in_order_def
    by (intro conjI all_before_prefix[OF p] gemma_script_order follows_preceded[OF fo]
        gemma_script_preceded)
qed

text \<open>
  C8, as the notebooks have it. In every run of either notebook, complete or cut short by
  an exception, the steps are in order: the two Elasticsearch credentials have been read
  before any request to a managed service; the Cohere API key has been read before the
  request that carries it and the hub login done before the model is fetched; the
  dataset has been downloaded before any document is indexed; indexing has completed
  before the query is issued; the query has returned before its results are output, and
  nothing follows the results. A run that completes has made every call of the
  notebook, in the notebook's order: the Cohere notebook ends with one printed block per
  hit of the search response, the Gemma notebook with the displayed answer.
\<close>

theorem notebook_order:
  "(cohere_notebook env (w, []) = (out, s') \<longrightarrow>
      steps_in_order (snd s')
      \<and> (out = Inr () \<longrightarrow>
           (\<exists>cloud_id api_key info cohere_key r1 r2 r3 elements w3 response hits results.
              client_search env movie_index 3 (knn_clause ''Fighting movie'') w3
                = (Inr response, fst s')
              \<and> response_hits response = Inr hits
              \<and> length results = length hits \<and> list_all is_hit_line results
              \<and> snd s' = ok (cohere_script cloud_id api_key info cohere_key r1 r2 r3 elements
                               ''Fighting movie'' @ results))))
   \<and> (gemma_notebook env (w, []) = (out, s') \<longrightarrow>
      steps_in_order (snd s')
      \<and> (out = Inr () \<longrightarrow>
           (\<exists>api_key cloud_id docs filled answer.
              snd s' = ok (gemma_script api_key cloud_id docs
                             ''What is the pet policy in the office?'' filled answer))))"
proof (intro conjI impI)
  assume "cohere_notebook env (w, []) = (out, s')"
  then show "steps_in_order (snd s')" by (rule cohere_steps_in_order)
next
  assume "cohere_notebook env (w, []) = (out, s')" and "out = Inr ()"
  then have "cohere_notebook env (w, []) = (Inr (), s')" by simp
  from cohere_complete[OF this]
  show "\<exists>cloud_id api_key info cohere_key r1 r2 r3 elements w3 response hits results.
              client_search env movie_index 3 (knn_clause ''Fighting movie'') w3
                = (Inr response, fst s')
              \<and> response_hits response = Inr hits
              \<and> length results = length hits \<and> list_all is_hit_line results
              \<and> snd s' = ok (cohere_script cloud_id api_key info cohere_key r1 r2 r3 elements
                               ''Fighting movie'' @ results)"
    by blast
next
  assume "gemma_notebook env (w, []) = (out, s')"
  then show "steps_in_order (snd s')" by (rule gemma_steps_in_order)
next
  assume "gemma_notebook env (w, []) = (out, s')" and "out = Inr ()"
  then have "gemma_notebook env (w, []) = (Inr (), s')" by simp
  from gemma_complete[OF this]
  show "\<exists>api_key cloud_id docs filled answer.
              snd s' = ok (gemma_script api_key cloud_id docs
                             ''What is the pet policy in the office?'' filled answer)"
    by blast
qed

lemma sample_cohere_run:
  "cohere_notebook sample_env (Map.empty, []) =
     (Inr (),
      ([movie_index \<mapsto> fresh_index],
       ok (cohere_script ''secret'' ''secret'' (JObj [(''tagline'', JStr ''You Know, for Search'')])
             ''secret'' acknowledged acknowledged acknowledged [sample_movie] ''Fighting movie''
           @ [hit_line (JNum 1) (JStr ''Fight Club'') (JStr ''An insomniac office worker''),
              hit_line (JNum 1) (JStr ''Fight Club'') (JStr ''An insomniac office worker''),
              hit_line (JNum 1) (JStr ''Fight Club'') (JStr ''An insomniac office worker'')])))"
  by (simp add: cohere_cells run_simps sample_defs cohere_script_def ok_def fresh_index_def movies_url_def)


lemma sample_gemma_run:
  "gemma_notebook sample_env (Map.empty, []) =
     (Inr (),
      (Map.empty,
       ok (gemma_script ''secret'' ''secret''
             (chunks_of_parent sample_split_text sample_workplace_doc)
             ''What is the pet policy in the office?''
             (''Pets are allowed'' @ ''What is the pet policy in the office?'')
             ''Answer: yes'')))"
  by (simp add: gemma_cells run_simps sample_defs gemma_script_def ok_def workplace_url_def
      movies_url_def chunks_of_parent_def parent_metadata_def doc_metadata_def)

theorem notebook_order_witness:
  "steps_in_order (snd (snd (cohere_notebook sample_env (Map.empty, []))))
   \<and> fst (cohere_notebook sample_env (Map.empty, [])) = Inr ()
   \<and> length (snd (snd (cohere_notebook sample_env (Map.empty, [])))) = 21
   \<and> steps_in_order (snd (snd (gemma_notebook sample_env (Map.empty, []))))
   \<and> fst (gemma_notebook sample_env (Map.empty, [])) = Inr ()
   \<and> length (snd (snd (gemma_notebook sample_env (Map.empty, [])))) = 11"
proof -
  have c: "cohere_notebook sample_env (Map.empty, []) =
          (Inr (), snd (cohere_notebook sample_env (Map.empty, [])))"
    by (simp add: sample_cohere_run)
  have g: "gemma_notebook sample_env (Map.empty, []) =
          (Inr (), snd (gemma_notebook sample_env (Map.empty, [])))"
    by (simp add: sample_gemma_run)
  have l: "length (snd (snd (cohere_notebook sample_env (Map.empty, [])))) = 21"
    "length (snd (snd (gemma_notebook sample_env (Map.empty, [])))) = 11"
    by (simp_all add: sample_cohere_run sample_gemma_run ok_def cohere_script_def gemma_script_def)
  note t1 = notebook_order[of sample_env Map.empty "Inr ()"
      "snd (cohere_notebook sample_env (Map.empty, []))", THEN conjunct1, THEN mp, OF c,
      THEN conjunct1]
  note t2 = notebook_order[of sample_env Map.empty "Inr ()"
      "snd (gemma_notebook sample_env (Map.empty, []))", THEN conjunct2, THEN mp, OF g,
      THEN conjunct1]
  from c have "fst (cohere_notebook sample_env (Map.empty, [])) = Inr ()"
    by (metis fst_conv)
  moreover from g have "fst (gemma_notebook sample_env (Map.empty, [])) = Inr ()"
    by (metis fst_conv)
  ultimately show ?thesis using t1 t2 l by simp
qed

text \<open>
  C8 as stated fails: in the Cohere notebook the third credential, the Cohere API key, is
  read after the deployment has already been called (\<^verbatim>\<open>client.info()\<close>).
\<close>

theorem cohere_key_read_after_service_call:
  "\<not> all_before is_credential is_service_call
        (calls (snd (cohere_notebook sample_env (Map.empty, []))))"
  by (simp add: sample_cohere_run calls_def cohere_script_def order_defs hit_line_def comp_def)

subsection \<open>Deleting and updating\<close>

lemmas delete_defs = is_delete_or_update_def is_indexing_def is_hit_line_def

lemma hit_lines_no_delete:
  assumes "list_all is_hit_line ps"
  shows "\<not> list_ex is_delete_or_update ps" "filter is_delete_or_update ps = []"
  using assms
  by (auto simp: list_all_iff list_ex_iff filter_empty_conv delete_defs split: call.splits)

lemma cohere_script_deletes:
  "all_before is_delete_or_update is_indexing (cohere_script a b c d e f g h q)"
  "filter is_delete_or_update (cohere_script a b c d e f g h q) = [IndicesDelete movie_index True]"
  by (simp_all add: cohere_script_def delete_defs)

lemma gemma_script_deletes:
  "filter is_delete_or_update (gemma_script a b c d e f) = []"
  by (simp add: gemma_script_def delete_defs)

lemma filter_prefix: "prefix xs ys \<Longrightarrow> prefix (filter P xs) (filter P ys)"
  by (auto simp: prefix_def)

text \<open>
  C4 as stated fails: the eleventh call of the Cohere notebook deletes the index.
\<close>

theorem cohere_notebook_deletes_index:
  "list_ex is_delete_or_update (calls (snd (cohere_notebook sample_env (Map.empty, []))))
   \<and> calls (snd (cohere_notebook sample_env (Map.empty, []))) ! 10 = IndicesDelete ''cohere-movie-embeddings'' True"
  by (simp add: sample_cohere_run calls_def cohere_script_def delete_defs hit_line_def comp_def
      movie_index_def)

text \<open>
  C4, as the notebooks have it. The only call of the Cohere notebook that deletes or
  updates stored data is the index deletion of the index-setup cell, made at most once
  and before any document is indexed; the Gemma notebook makes no such call.
\<close>

theorem only_index_reset_deletes:
  "(cohere_notebook env (w, []) = (out, s') \<longrightarrow>
       prefix (filter is_delete_or_update (calls s')) [IndicesDelete movie_index True]
       \<and> all_before is_delete_or_update is_indexing (calls s'))
   \<and> (gemma_notebook env (w, []) = (out, s') \<longrightarrow> filter is_delete_or_update (calls s') = [])"
proof (intro conjI impI)
  assume "cohere_notebook env (w, []) = (out, s')"
  with cohere_follows[of env w out s'] obtain a b c d e f g h where
    fo: "follows (cohere_script a b c d e f g h ''Fighting movie'' @ drop 18 (calls s')) (snd s') out"
    and hl: "list_all is_hit_line (drop 18 (calls s'))"
    by blast
  from follows_prefix[OF fo]
  have p: "prefix (calls s') (cohere_script a b c d e f g h ''Fighting movie'' @ drop 18 (calls s'))"
    by (simp add: calls_def)
  from filter_prefix[OF p, of is_delete_or_update]
  show "prefix (filter is_delete_or_update (calls s')) [IndicesDelete movie_index True]"
    by (simp add: cohere_script_deletes(2) hit_lines_no_delete(2)[OF hl])
  show "all_before is_delete_or_update is_indexing (calls s')"
    by (intro all_before_prefix[OF p] all_before_tail hit_lines_no_delete[OF hl]
        cohere_script_deletes)
next
  assume "gemma_notebook env (w, []) = (out, s')"
  with gemma_follows[of env w out s'] obtain a b c d e where
    fo: "follows (gemma_script a b c ''What is the pet policy in the office?'' d e) (snd s') out"
    by blast
  from follows_prefix[OF fo]
  have p: "prefix (calls s') (gemma_script a b c ''What is the pet policy in the office?'' d e)"
    by (simp add: calls_def)
  from filter_prefix[OF p, of is_delete_or_update]
  show "filter is_delete_or_update (calls s') = []"
    by (simp add: gemma_script_deletes)
qed

theorem only_index_reset_deletes_witness:
  "filter is_delete_or_update (calls (snd (cohere_notebook sample_env (Map.empty, [])))) =
      [IndicesDelete movie_index True]
   \<and> all_before is_delete_or_update is_indexing (calls (snd (cohere_notebook sample_env (Map.empty, []))))
   \<and> filter is_delete_or_update (calls (snd (gemma_notebook sample_env (Map.empty, [])))) = []"
proof -
  have f: "filter is_delete_or_update (calls (snd (cohere_notebook sample_env (Map.empty, [])))) =
      [IndicesDelete movie_index True]"
    by (simp add: sample_cohere_run calls_def cohere_script_def delete_defs hit_line_def comp_def)
  from only_index_reset_deletes[of sample_env Map.empty
         "fst (cohere_notebook sample_env (Map.empty, []))" "snd (cohere_notebook sample_env (Map.empty, []))"]
       only_index_reset_deletes[of sample_env Map.empty
         "fst (gemma_notebook sample_env (Map.empty, []))" "snd (gemma_notebook sample_env (Map.empty, []))"]
       f
  show ?thesis by simp
qed

subsection \<open>Failures\<close>

text \<open>
  C2. No operation of either notebook catches, suppresses, retries or recovers from an
  error. In every run, a call to the outside that fails (a prompt, the download, an
  indexing, inference or search request, or any other) is the last call of the run and
  its exception is the run's outcome. A run that completes has had every computation on
  the data it received succeed: the decoding of the dataset, the iteration over it, the
  splitting, the reading of the hits and of their fields, the prompt's filling, the
  parsing of the answer. A run that ends with an exception none of its calls raised
  ends with the exception of the first such computation that failed, with no call made
  after it.
\<close>

theorem failures_end_the_run:
  "(cohere_notebook env (w, []) = (out, s') \<longrightarrow>
      (\<forall>i e. i < length (snd s') \<longrightarrow> snd (snd s' ! i) = Some e
          \<longrightarrow> Suc i = length (snd s') \<and> out = Inl e)
    \<and> (out = Inr () \<longrightarrow>
          (\<exists>w1 w2 body data elements w3 response hits.
              urlopen_read env movies_url w1 = (Inr body, w2)
            \<and> json_loads env body = Inr data \<and> py_iter data = Inr elements
            \<and> client_search env movie_index 3 (knn_clause ''Fighting movie'') w3
                 = (Inr response, fst s')
            \<and> response_hits response = Inr hits
            \<and> list_all (\<lambda>h. hit_error h = None) hits
            \<and> length (snd s') = 18 + length hits))
    \<and> (\<forall>e. out = Inl e \<longrightarrow> list_all (\<lambda>entry. snd entry = None) (snd s') \<longrightarrow>
          (\<exists>w1 body. urlopen_read env movies_url w1 = (Inr body, fst s') \<and> length (snd s') = 14
              \<and> (json_loads env body = Inl e
                  \<or> (\<exists>data. json_loads env body = Inr data \<and> py_iter data = Inl e)))
        \<or> (\<exists>w3 response.
               client_search env movie_index 3 (knn_clause ''Fighting movie'') w3
                 = (Inr response, fst s')
              \<and> (response_hits response = Inl e \<and> length (snd s') = 18
                  \<or> (\<exists>hits n. response_hits response = Inr hits \<and> n < length hits
                        \<and> hit_error (hits ! n) = Some e
                        \<and> list_all (\<lambda>h. hit_error h = None) (take n hits)
                        \<and> length (snd s') = 18 + n)))))
   \<and> (gemma_notebook env (w, []) = (out, s') \<longrightarrow>
      (\<forall>i e. i < length (snd s') \<longrightarrow> snd (snd s' ! i) = Some e
          \<longrightarrow> Suc i = length (snd s') \<and> out = Inl e)
    \<and> (out = Inr () \<longrightarrow>
          (\<exists>w1 w2 body data elements docs w3 w4 retrieved filled output answer.
              urlopen_read env workplace_url w1 = (Inr body, w2)
            \<and> json_loads env body = Inr data \<and> py_iter data = Inr elements
            \<and> split_documents (create_documents env) elements = Inr docs
            \<and> retrieve env 10 ''What is the pet policy in the office?'' w3 = (Inr retrieved, w4)
            \<and> prompt_format env template
                  [(''context'', format_docs retrieved),
                   (''question'', ''What is the pet policy in the office?'')] = Inr filled
            \<and> llm_invoke env filled w4 = (Inr output, fst s')
            \<and> parse_output env output = Inr answer
            \<and> length (snd s') = 11))
    \<and> (\<forall>e. out = Inl e \<longrightarrow> list_all (\<lambda>entry. snd entry = None) (snd s') \<longrightarrow>
          (\<exists>w1 body. urlopen_read env workplace_url w1 = (Inr body, fst s') \<and> length (snd s') = 3
              \<and> (json_loads env body = Inl e
                  \<or> (\<exists>data. json_loads env body = Inr data
                        \<and> (py_iter data = Inl e
                            \<or> (\<exists>elements. py_iter data = Inr elements
                                  \<and> split_documents (create_documents env) elements = Inl e)))))
        \<or> (\<exists>w3 retrieved.
               retrieve env 10 ''What is the pet policy in the office?'' w3 = (Inr retrieved, fst s')
              \<and> length (snd s') = 9
              \<and> prompt_format env template
                    [(''context'', format_docs retrieved),
                     (''question'', ''What is the pet policy in the office?'')] = Inl e)
        \<or> (\<exists>w5 filled output. llm_invoke env filled w5 = (Inr output, fst s')
              \<and> length (snd s') = 10 \<and> parse_output env output = Inl e)))"
proof (intro conjI impI allI)
  fix i e
  assume "cohere_notebook env (w, []) = (out, s')" "i < length (snd s')" "snd (snd s' ! i) = Some e"
  with cohere_follows[of env w out s'] follows_fail_stop[of _ "snd s'" out i e]
  show "Suc i = length (snd s')" "out = Inl e" by blast+
next
  assume "cohere_notebook env (w, []) = (out, s')" "out = Inr ()"
  then have "cohere_notebook env (w, []) = (Inr (), s')" by simp
  from cohere_complete[OF this] obtain w1 w2 body data elements w3 response hits ps a b c d e f g
    where "urlopen_read env movies_url w1 = (Inr body, w2)" "json_loads env body = Inr data"
      "py_iter data = Inr elements"
      "client_search env movie_index 3 (knn_clause ''Fighting movie'') w3 = (Inr response, fst s')"
      "response_hits response = Inr hits" "list_all (\<lambda>h. hit_error h = None) hits"
      "length ps = length hits"
      "snd s' = ok (cohere_script a b c d e f g elements ''Fighting movie'' @ ps)"
    by blast
  moreover from this have "length (snd s') = 18 + length hits"
    by (simp add: ok_def cohere_script_def)
  ultimately show "\<exists>w1 w2 body data elements w3 response hits.
              urlopen_read env movies_url w1 = (Inr body, w2)
            \<and> json_loads env body = Inr data \<and> py_iter data = Inr elements
            \<and> client_search env movie_index 3 (knn_clause ''Fighting movie'') w3
                 = (Inr response, fst s')
            \<and> response_hits response = Inr hits
            \<and> list_all (\<lambda>h. hit_error h = None) hits
            \<and> length (snd s') = 18 + length hits"
    by blast
next
  fix e
  assume "cohere_notebook env (w, []) = (out, s')" "out = Inl e"
    "list_all (\<lambda>entry. snd entry = None) (snd s')"
  then have "cohere_notebook env (w, []) = (Inl e, s')"
    "list_all (\<lambda>entry. snd entry = None) (snd s')" by simp_all
  then show "(\<exists>w1 body. urlopen_read env movies_url w1 = (Inr body, fst s') \<and> length (snd s') = 14
              \<and> (json_loads env body = Inl e
                  \<or> (\<exists>data. json_loads env body = Inr data \<and> py_iter data = Inl e)))
        \<or> (\<exists>w3 response.
               client_search env movie_index 3 (knn_clause ''Fighting movie'') w3
                 = (Inr response, fst s')
              \<and> (response_hits response = Inl e \<and> length (snd s') = 18
                  \<or> (\<exists>hits n. response_hits response = Inr hits \<and> n < length hits
                        \<and> hit_error (hits ! n) = Some e
                        \<and> list_all (\<lambda>h. hit_error h = None) (take n hits)
                        \<and> length (snd s') = 18 + n)))"
    by (rule cohere_inprocess)
next
  fix i e
  assume "gemma_notebook env (w, []) = (out, s')" "i < length (snd s')" "snd (snd s' ! i) = Some e"
  with gemma_follows[of env w out s'] follows_fail_stop[of _ "snd s'" out i e]
  show "Suc i = length (snd s')" "out = Inl e" by blast+
next
  assume "gemma_notebook env (w, []) = (out, s')" "out = Inr ()"
  then have "gemma_notebook env (w, []) = (Inr (), s')" by simp
  from gemma_complete[OF this] obtain a b w1 w2 body data elements docs w3 w4 retrieved filled
      reply answer
    where "urlopen_read env workplace_url w1 = (Inr body, w2)" "json_loads env body = Inr data"
      "py_iter data = Inr elements" "split_documents (create_documents env) elements = Inr docs"
      "retrieve env 10 ''What is the pet policy in the office?'' w3 = (Inr retrieved, w4)"
      "prompt_format env template
          [(''context'', format_docs retrieved),
           (''question'', ''What is the pet policy in the office?'')] = Inr filled"
      "llm_invoke env filled w4 = (Inr reply, fst s')" "parse_output env reply = Inr answer"
      "snd s' = ok (gemma_script a b docs ''What is the pet policy in the office?'' filled answer)"
    by blast
  moreover from this have "length (snd s') = 11"
    by (simp add: ok_def gemma_script_def)
  ultimately show "\<exists>w1 w2 body data elements docs w3 w4 retrieved filled output answer.
              urlopen_read env workplace_url w1 = (Inr body, w2)
            \<and> json_loads env body = Inr data \<and> py_iter data = Inr elements
            \<and> split_documents (create_documents env) elements = Inr docs
            \<and> retrieve env 10 ''What is the pet policy in the office?'' w3 = (Inr retrieved, w4)
            \<and> prompt_format env template
                  [(''context'', format_docs retrieved),
                   (''question'', ''What is the pet policy in the office?'')] = Inr filled
            \<and> llm_invoke env filled w4 = (Inr output, fst s')
            \<and> parse_output env output = Inr answer
            \<and> length (snd s') = 11"
    by blast
next
  fix e
  assume "gemma_notebook env (w, []) = (out, s')" "out = Inl e"
    "list_all (\<lambda>entry. snd entry = None) (snd s')"
  then have "gemma_notebook env (w, []) = (Inl e, s')"
    "list_all (\<lambda>entry. snd entry = None) (snd s')" by simp_all
  then show "(\<exists>w1 body. urlopen_read env workplace_url w1 = (Inr body, fst s') \<and> length (snd s') = 3
              \<and> (json_loads env body = Inl e
                  \<or> (\<exists>data. json_loads env body = Inr data
                        \<and> (py_iter data = Inl e
                            \<or> (\<exists>elements. py_iter data = Inr elements
                                  \<and> split_documents (create_documents env) elements = Inl e)))))
        \<or> (\<exists>w3 retrieved.
               retrieve env 10 ''What is the pet policy in the office?'' w3 = (Inr retrieved, fst s')
              \<and> length (snd s') = 9
              \<and> prompt_format env template
                    [(''context'', format_docs retrieved),
                     (''question'', ''What is the pet policy in the office?'')] = Inl e)
        \<or> (\<exists>w5 filled output. llm_invoke env filled w5 = (Inr output, fst s')
              \<and> length (snd s') = 10 \<and> parse_output env output = Inl e)"
    by (rule gemma_inprocess)
qed

lemma failing_cohere_run:
  "cohere_notebook failing_env (Map.empty, []) =
     (Inl (Raised ''URLError''),
      ([movie_index \<mapsto> fresh_index],
       ok (take 13 (cohere_script ''secret'' ''secret'' (JObj [(''tagline'', JStr ''You Know, for Search'')])
             ''secret'' acknowledged acknowledged acknowledged [] []))
       @ [(Urlopen movies_url, Some (Raised ''URLError''))]))"
  by (simp add: cohere_cells run_simps failing_env_def sample_defs cohere_script_def ok_def fresh_index_def)

lemma undecodable_gemma_run:
  "gemma_notebook undecodable_env (Map.empty, []) =
     (Inl (Raised ''JSONDecodeError''),
      (Map.empty,
       ok [Getpass ''Elastic API Key :'', Getpass ''Elastic Cloud ID :'', Urlopen workplace_url]))"
  by (simp add: gemma_cells run_simps undecodable_env_def sample_env_def ok_def)

theorem failures_end_the_run_witness:
  "length (snd (snd (cohere_notebook failing_env (Map.empty, [])))) = 14
   \<and> snd (snd (snd (cohere_notebook failing_env (Map.empty, []))) ! 13) = Some (Raised ''URLError'')
   \<and> fst (cohere_notebook failing_env (Map.empty, [])) = Inl (Raised ''URLError'')
   \<and> fst (gemma_notebook undecodable_env (Map.empty, [])) = Inl (Raised ''JSONDecodeError'')
   \<and> list_all (\<lambda>entry. snd entry = None) (snd (snd (gemma_notebook undecodable_env (Map.empty, []))))
   \<and> length (snd (snd (gemma_notebook undecodable_env (Map.empty, [])))) \<in> {3, 9, 10}"
proof -
  have r: "cohere_notebook failing_env (Map.empty, []) =
          (fst (cohere_notebook failing_env (Map.empty, [])), snd (cohere_notebook failing_env (Map.empty, [])))"
    by simp
  have l: "length (snd (snd (cohere_notebook failing_env (Map.empty, [])))) = 14"
    and f: "snd (snd (snd (cohere_notebook failing_env (Map.empty, []))) ! 13) = Some (Raised ''URLError'')"
    by (simp_all add: failing_cohere_run cohere_script_def ok_def)
  note a = failures_end_the_run[of failing_env Map.empty
      "fst (cohere_notebook failing_env (Map.empty, []))"
      "snd (cohere_notebook failing_env (Map.empty, []))",
      THEN conjunct1, THEN mp, OF r, THEN conjunct1, rule_format, of 13 "Raised ''URLError''"]
  from a l f have o: "fst (cohere_notebook failing_env (Map.empty, [])) = Inl (Raised ''URLError'')"
    by simp
  have g: "gemma_notebook undecodable_env (Map.empty, []) =
          (Inl (Raised ''JSONDecodeError''), snd (gemma_notebook undecodable_env (Map.empty, [])))"
    and n: "list_all (\<lambda>entry. snd entry = None)
              (snd (snd (gemma_notebook undecodable_env (Map.empty, []))))"
    by (simp_all add: undecodable_gemma_run ok_def)
  note d = failures_end_the_run[of undecodable_env Map.empty "Inl (Raised ''JSONDecodeError'')"
      "snd (gemma_notebook undecodable_env (Map.empty, []))",
      THEN conjunct2, THEN mp, OF g, THEN conjunct2, THEN conjunct2, rule_format, OF refl n]
  from d have "length (snd (snd (gemma_notebook undecodable_env (Map.empty, [])))) \<in> {3, 9, 10}"
    by auto
  moreover from g have "fst (gemma_notebook undecodable_env (Map.empty, [])) = Inl (Raised ''JSONDecodeError'')"
    by (metis fst_conv)
  ultimately show ?thesis using l f o n by simp
qed

subsection \<open>The index-setup cell\<close>

text \<open>
  C9. On a deployment whose index API behaves as recorded above, the index-setup cell
  succeeds from every state, leaves the movie index fresh and empty with the cell's
  settings and mappings whether or not it existed before, and leaves the other indices
  alone; running the cell a second time gives the same deployment state as running it
  once.
\<close>

theorem index_setup_idempotent:
  assumes "indices_delete env = es_indices_delete"
    and "indices_create env = es_indices_create"
  shows "fst (index_setup_cell env (c, tr)) = Inr ()
       \<and> fst (snd (index_setup_cell env (c, tr))) = c(movie_index \<mapsto> fresh_index)
       \<and> fst (snd (index_setup_cell env (snd (index_setup_cell env (c, tr)))))
           = fst (snd (index_setup_cell env (c, tr)))"
proof -
  have run: "\<And>c tr. index_setup_cell env (c, tr) =
      (Inr (), (c(movie_index \<mapsto> fresh_index),
                tr @ ok [IndicesDelete movie_index True,
                         IndicesCreate movie_index index_settings index_mappings,
                         Display (ShownJson acknowledged)]))"
    by (simp add: index_setup_cell_def run_simps assms es_indices_delete_def es_indices_create_def
        fresh_index_def ok_def split: option.splits)
  show ?thesis by (simp add: run)
qed

theorem index_setup_idempotent_witness:
  "fst (snd (index_setup_cell sample_env ([movie_index \<mapsto> old_index], [])))
     = [movie_index \<mapsto> fresh_index]
   \<and> fst (snd (index_setup_cell sample_env (Map.empty, []))) = [movie_index \<mapsto> fresh_index]
   \<and> fst (index_setup_cell sample_env ([movie_index \<mapsto> old_index], [])) = Inr ()"
proof -
  have d: "indices_delete sample_env = es_indices_delete"
    and c: "indices_create sample_env = es_indices_create"
    by (simp_all add: sample_env_def)
  from index_setup_idempotent[OF d c, of "[movie_index \<mapsto> old_index]" "[]"]
       index_setup_idempotent[OF d c, of Map.empty "[]"]
  show ?thesis by simp
qed

subsection \<open>The search cell\<close>

text \<open>
  C10. For every query text, on a deployment that returns at most \<^verbatim>\<open>size\<close> hits,
  the search cell sends one search with size 3, k 10 and 100 candidates, and prints at
  most three hits after it.
\<close>

theorem search_prints_at_most_three:
  assumes "search_respects_size env"
    and "search_cell env model_text s = (r, s')"
  shows "\<exists>printed. calls s' = calls s @ ClientSearch movie_index 3 (knn_clause model_text) # printed
          \<and> list_all is_hit_line printed \<and> length printed \<le> 3
          \<and> py_getitem (knn_clause model_text) ''k'' = Inr (JNum 10)
          \<and> py_getitem (knn_clause model_text) ''num_candidates'' = Inr (JNum 100)"
proof -
  have knn: "py_getitem (knn_clause model_text) ''k'' = Inr (JNum 10)"
    "py_getitem (knn_clause model_text) ''num_candidates'' = Inr (JNum 100)"
    by (simp_all add: knn_clause_def items_get_def)
  obtain res w' where cs: "client_search env movie_index 3 (knn_clause model_text) (fst s) = (res, w')"
    by (cases "client_search env movie_index 3 (knn_clause model_text) (fst s)")
  let ?q = "ClientSearch movie_index 3 (knn_clause model_text)"
  have "\<exists>printed. calls s' = calls s @ ?q # printed \<and> list_all is_hit_line printed \<and> length printed \<le> 3"
  proof (cases res)
    case (Inl e)
    with assms(2) cs have "calls s' = calls s @ [?q]"
      by (auto simp: search_cell_def run_simps calls_def)
    then show ?thesis by simp
  next
    case (Inr response)
    show ?thesis
    proof (cases "response_hits response")
      case (Inl e)
      with assms(2) cs Inr have "calls s' = calls s @ [?q]"
        by (auto simp: search_cell_def run_simps calls_def)
      then show ?thesis by simp
    next
      case hits: (Inr hits)
      from assms(1) cs Inr hits have le: "length hits \<le> 3"
        unfolding search_respects_size_def by blast
      from assms(2) cs Inr hits
      have "for_each hits print_hit (w', snd s @ [(?q, None)]) = (r, s')"
        by (simp add: search_cell_def run_simps)
      from for_each_print_hit[OF this] obtain ps where
        ps: "list_all is_hit_line ps" "length ps \<le> length hits" "snd s' = (snd s @ [(?q, None)]) @ ok ps"
        by auto
      from ps(3) have "calls s' = calls s @ ?q # ps"
        by (simp add: calls_def)
      with ps le show ?thesis by auto
    qed
  qed
  with knn show ?thesis by blast
qed

lemma sample_search_respects_size: "search_respects_size sample_env"
  by (auto simp: search_respects_size_def sample_env_def sample_response_def response_hits_def
      sum_bind_def items_get_def)

theorem search_prints_at_most_three_witness:
  "search_respects_size sample_env
   \<and> calls (snd (search_cell sample_env ''Fighting movie'' (Map.empty, []))) =
       [ClientSearch movie_index 3 (knn_clause ''Fighting movie''),
        hit_line (JNum 1) (JStr ''Fight Club'') (JStr ''An insomniac office worker''),
        hit_line (JNum 1) (JStr ''Fight Club'') (JStr ''An insomniac office worker''),
        hit_line (JNum 1) (JStr ''Fight Club'') (JStr ''An insomniac office worker'')]"
proof -
  have r: "search_cell sample_env ''Fighting movie'' (Map.empty, []) =
     (fst (search_cell sample_env ''Fighting movie'' (Map.empty, [])),
      snd (search_cell sample_env ''Fighting movie'' (Map.empty, [])))"
    by simp
  have run: "calls (snd (search_cell sample_env ''Fighting movie'' (Map.empty, []))) =
       [ClientSearch movie_index 3 (knn_clause ''Fighting movie''),
        hit_line (JNum 1) (JStr ''Fight Club'') (JStr ''An insomniac office worker''),
        hit_line (JNum 1) (JStr ''Fight Club'') (JStr ''An insomniac office worker''),
        hit_line (JNum 1) (JStr ''Fight Club'') (JStr ''An insomniac office worker'')]"
    by (simp add: search_cell_def run_simps sample_defs calls_def)
  from search_prints_at_most_three[OF sample_search_respects_size r] run sample_search_respects_size
  show ?thesis by simp
qed

end
